theory Spec2Isabelle
  imports Complex_Main "HOL-Library.Word"
begin

section \<open>Scalars and vectors\<close>

text \<open>
  The engine is \<^verbatim>\<open>src/gpu/src/particlesystem.cpp\<close>. Its numbers are modelled as follows.
  \<^item> \<^verbatim>\<open>uint\<close> is a 32-bit word: addition wraps, comparison is unsigned.
  \<^item> \<^verbatim>\<open>int\<close> is a HOL integer. Signed overflow is undefined in C++ and is outside the model;
    an \<^verbatim>\<open>int\<close> that meets a \<^verbatim>\<open>uint\<close> is converted with \<open>word_of_int\<close>, as C++ does.
  \<^item> A finite \<^verbatim>\<open>float\<close> is the rational number it denotes; rounding is not modelled, a
    literal such as \<^verbatim>\<open>.05f\<close> is read as the decimal it is written as, and there is no negative
    zero. The result of a float division is an \<open>xfloat\<close>, which adds the IEEE 754 special
    values a division by zero produces.
\<close>

type_synonym uint = "32 word"
type_synonym float = rat

datatype xfloat = Fin rat | PInf | NInf | NaN

definition fdiv :: "float \<Rightarrow> float \<Rightarrow> xfloat" where
  "fdiv a b =
     (if b \<noteq> 0 then Fin (a / b)
      else if 0 < a then PInf
      else if a < 0 then NInf
      else NaN)"

fun isfinite :: "xfloat \<Rightarrow> bool" where
  "isfinite (Fin q) = True"
| "isfinite PInf = False"
| "isfinite NInf = False"
| "isfinite NaN = False"

text \<open>
  Conversion of a float to \<^verbatim>\<open>int\<close> truncates towards zero; it is undefined (\<open>None\<close>) for a
  value that is not finite or does not fit 32 bits.
\<close>

definition trunc :: "rat \<Rightarrow> int" where
  "trunc q = (if 0 \<le> q then \<lfloor>q\<rfloor> else \<lceil>q\<rceil>)"

fun f2i :: "xfloat \<Rightarrow> int option" where
  "f2i (Fin q) =
     (if - (2 ^ 31) \<le> trunc q \<and> trunc q < 2 ^ 31 then Some (trunc q) else None)"
| "f2i PInf = None"
| "f2i NInf = None"
| "f2i NaN = None"

datatype float2 = make_float2 (f2x: float) (f2y: float)
datatype float3 = make_float3 (f3x: float) (f3y: float) (f3z: float)
datatype float4 = make_float4 (f4x: float) (f4y: float) (f4z: float) (f4w: float)
datatype int2 = make_int2 (i2x: int) (i2y: int)
datatype int3 = make_int3 (i3x: int) (i3y: int) (i3z: int)
datatype uint3 = make_uint3 (u3x: uint) (u3y: uint) (u3z: uint)

text \<open>The overloads of \<^verbatim>\<open>helper_math.h\<close> that the engine calls.\<close>

definition make_float4_3 :: "float3 \<Rightarrow> float \<Rightarrow> float4" where
  "make_float4_3 v w = make_float4 (f3x v) (f3y v) (f3z v) w"

definition make_float3_4 :: "float4 \<Rightarrow> float3" where
  "make_float3_4 p = make_float3 (f4x p) (f4y p) (f4z p)"

definition float3_add :: "float3 \<Rightarrow> float3 \<Rightarrow> float3" where
  "float3_add a b = make_float3 (f3x a + f3x b) (f3y a + f3y b) (f3z a + f3z b)"

definition float3_sub :: "float3 \<Rightarrow> float3 \<Rightarrow> float3" where
  "float3_sub a b = make_float3 (f3x a - f3x b) (f3y a - f3y b) (f3z a - f3z b)"

definition float3_scale :: "float \<Rightarrow> float3 \<Rightarrow> float3" where
  "float3_scale c v = make_float3 (c * f3x v) (c * f3y v) (c * f3z v)"

definition dot :: "float3 \<Rightarrow> float3 \<Rightarrow> float" where
  "dot a b = f3x a * f3x b + f3y a * f3y b + f3z a * f3z b"

section \<open>The environment of the engine\<close>

text \<open>
  What the file uses and does not define is a parameter: the values that successive calls of
  \<^verbatim>\<open>rand()\<close> return, the colour table \<^verbatim>\<open>colors\<close> with its size \<^verbatim>\<open>numColors\<close>, and the phase
  tags \<^verbatim>\<open>SOLID\<close>, \<^verbatim>\<open>FLUID\<close> and \<^verbatim>\<open>RIGID\<close>.
\<close>

record env =
  rand_src :: "nat \<Rightarrow> int"
  colors :: "float3 list"
  numColors :: int
  SOLID :: int
  FLUID :: int
  RIGID :: int

definition RAND_MAX :: int where
  "RAND_MAX = 2147483647"

text \<open>\<^verbatim>\<open>frand()\<close>, for the \<open>k\<close>-th call of \<^verbatim>\<open>rand()\<close>: \<^verbatim>\<open>rand() / (float)RAND_MAX\<close>.\<close>

definition frand :: "env \<Rightarrow> nat \<Rightarrow> float" where
  "frand E k = of_int (rand_src E k) / of_int RAND_MAX"

section \<open>The state of the engine\<close>

text \<open>
  The calls that \<^verbatim>\<open>update\<close> makes into the CUDA layer (\<^verbatim>\<open>kernel.cuh\<close>, \<^verbatim>\<open>wrappers.cuh\<close>) are
  recorded in the order they are made, each with its scalar arguments. The layer itself is not
  among the sources, so what a kernel does to the device arrays is not modelled.
\<close>

datatype launch =
    MapGLBufferObject
  | SetParameters
  | IntegrateSystem float uint
  | CalcHash uint
  | SortParticles uint
  | ReorderDataAndFindCellStart uint uint
  | Collide uint uint
  | SolveFluids uint uint
  | CollideWorld uint int3 int3
  | SolveDistanceConstraints
  | SolvePointConstraints
  | CalcVelocity float uint
  | UnmapGLBufferObject

text \<open>
  The fields \<open>m_\<close>... are the members of the class. \<open>posVbo\<close> is the position buffer as the
  host uploads it, one slot per particle of the capacity, \<open>None\<close> where nothing was uploaded
  yet; what the kernels write to it during a step is not modelled. \<open>rand_count\<close> counts the
  calls of \<^verbatim>\<open>rand()\<close> made so far. The fields \<open>d_\<close>... are the arrays and constraint sets
  kept by the CUDA layer, and \<open>launches\<close> is the record of the calls of a step.
\<close>

record ParticleSystem =
  m_particleRadius :: float
  m_maxParticles :: uint
  m_numParticles :: uint
  m_numGridCells :: uint
  m_rigidIndex :: int
  m_minBounds :: int3
  m_maxBounds :: int3
  m_solverIterations :: uint
  m_particlesToAdd :: "float4 list"
  m_fluidsToAdd :: "float4 list"
  m_colorIndex :: "int2 list"
  m_colors :: "float4 list"
  posVbo :: "float4 option list"
  rand_count :: nat
  d_vel :: "float4 list"
  d_ro :: "float list"
  d_phase :: "int list"
  d_w :: "xfloat list"
  d_distanceConstraints :: "((uint \<times> uint) \<times> float) list"
  d_pointConstraints :: "(uint \<times> float3) list"
  launches :: "launch list"

text \<open>
  The constructor (l.36-68) and \<^verbatim>\<open>_init\<close> (l.78-105): no particle, the capacity as given, a
  position buffer of \<open>maxParticles\<close> slots, empty queues and groups.
\<close>

definition ParticleSystem_new ::
  "float \<Rightarrow> uint3 \<Rightarrow> uint \<Rightarrow> int3 \<Rightarrow> int3 \<Rightarrow> int \<Rightarrow> ParticleSystem" where
  "ParticleSystem_new particleRadius gridSize maxParticles minBounds maxBounds iterations =
     \<lparr> m_particleRadius = particleRadius,
       m_maxParticles = maxParticles,
       m_numParticles = 0,
       m_numGridCells = u3x gridSize * u3y gridSize * u3z gridSize,
       m_rigidIndex = 0,
       m_minBounds = minBounds,
       m_maxBounds = maxBounds,
       m_solverIterations = word_of_int iterations,
       m_particlesToAdd = [],
       m_fluidsToAdd = [],
       m_colorIndex = [],
       m_colors = [],
       posVbo = replicate (unat maxParticles) None,
       rand_count = 0,
       d_vel = [],
       d_ro = [],
       d_phase = [],
       d_w = [],
       d_distanceConstraints = [],
       d_pointConstraints = [],
       launches = [] \<rparr>"

section \<open>Admission\<close>

text \<open>
  \<^verbatim>\<open>glBufferSubData\<close> at slot \<open>off\<close>: OpenGL rejects a range that leaves the buffer
  (\<^verbatim>\<open>GL_INVALID_VALUE\<close>) and writes nothing.
\<close>

definition glBufferSubData :: "nat \<Rightarrow> float4 list \<Rightarrow> float4 option list \<Rightarrow> float4 option list" where
  "glBufferSubData off data buf =
     (if off + length data \<le> length buf
      then take off buf @ map Some data @ drop (off + length data) buf
      else buf)"

text \<open>
  Reading the first \<open>n\<close> elements of a C array. Reading past what was written, or a negative
  count, is outside the model.
\<close>

definition read_array :: "int \<Rightarrow> 'a list \<Rightarrow> 'a list option" where
  "read_array n xs = (if 0 \<le> n \<and> nat n \<le> length xs then Some (take (nat n) xs) else None)"

text \<open>
  The functions that store a particle and a constraint are defined in the CUDA layer, which is
  not among the sources; the engine only calls them. Each is modelled from what the spec says
  of the data it keeps. The engine passes arrays with a count; for the two functions that
  append particle attributes the caller reads the first \<open>count\<close> elements and passes them.
  \<^verbatim>\<open>appendSolverParticle\<close> is missing too, and the spec says nothing of its arrays: it is not
  modelled.
\<close>

text \<open>
  Modelled from the spec: \<^verbatim>\<open>appendIntegrationParticle\<close> is missing. The particle store is
  "parallel arrays of particle attributes (position, velocity, inverse mass, rest density,
  phase)", and "all growth is monotonic": the velocities and rest densities are appended.
\<close>

definition appendIntegrationParticle ::
  "float4 list \<Rightarrow> float list \<Rightarrow> ParticleSystem \<Rightarrow> ParticleSystem" where
  "appendIntegrationParticle v ro s = s\<lparr> d_vel := d_vel s @ v, d_ro := d_ro s @ ro \<rparr>"

text \<open>
  Modelled from the spec: \<^verbatim>\<open>appendPhaseAndMass\<close> is missing. By the same sentences, the
  phases and inverse masses are appended.
\<close>

definition appendPhaseAndMass ::
  "int list \<Rightarrow> xfloat list \<Rightarrow> ParticleSystem \<Rightarrow> ParticleSystem" where
  "appendPhaseAndMass phase w s = s\<lparr> d_phase := d_phase s @ phase, d_w := d_w s @ w \<rparr>"

text \<open>The index pairs of a flat array of indices, and the points of a flat array of floats.\<close>

fun pairs :: "'a list \<Rightarrow> ('a \<times> 'a) list" where
  "pairs (a # b # xs) = (a, b) # pairs xs"
| "pairs xs = []"

fun triples :: "float list \<Rightarrow> float3 list" where
  "triples (a # b # c # xs) = make_float3 a b c # triples xs"
| "triples xs = []"

text \<open>
  Modelled from the spec: \<^verbatim>\<open>addDistanceConstraint\<close> is missing. A distance constraint is a
  "pair of particle indices + target rest length", and the set is "append-only per inserted
  shape".
\<close>

definition addDistanceConstraint ::
  "uint list \<Rightarrow> float list \<Rightarrow> int \<Rightarrow> ParticleSystem \<Rightarrow> ParticleSystem option" where
  "addDistanceConstraint index distance numConstraints s =
     (case (read_array (2 * numConstraints) index, read_array numConstraints distance) of
        (Some ix, Some ds) \<Rightarrow>
          Some (s\<lparr> d_distanceConstraints := d_distanceConstraints s @ zip (pairs ix) ds \<rparr>)
      | _ \<Rightarrow> None)"

text \<open>
  Modelled from the spec: \<^verbatim>\<open>addPointConstraint\<close> is missing. A point constraint is a
  "single particle index + target world position", and the set is append-only as well.
\<close>

definition addPointConstraint ::
  "uint list \<Rightarrow> float list \<Rightarrow> int \<Rightarrow> ParticleSystem \<Rightarrow> ParticleSystem option" where
  "addPointConstraint index point numConstraints s =
     (case (read_array numConstraints index, read_array (3 * numConstraints) point) of
        (Some ix, Some ps) \<Rightarrow>
          Some (s\<lparr> d_pointConstraints := d_pointConstraints s @ zip ix (triples ps) \<rparr>)
      | _ \<Rightarrow> None)"

text \<open>\<^verbatim>\<open>addParticle\<close> (l.287-308).\<close>

definition addParticle ::
  "float4 \<Rightarrow> float4 \<Rightarrow> float \<Rightarrow> float \<Rightarrow> int \<Rightarrow> ParticleSystem \<Rightarrow> ParticleSystem" where
  "addParticle pos vel mass ro phase s =
     (if m_numParticles s = m_maxParticles s then s
      else
        let s1 = s\<lparr> posVbo := glBufferSubData (unat (m_numParticles s)) [pos] (posVbo s) \<rparr>;
            w = fdiv 1 mass;
            s2 = appendIntegrationParticle [vel] [ro] s1;
            s3 = appendPhaseAndMass [phase] [w] s2
        in s3\<lparr> m_numParticles := m_numParticles s3 + 1 \<rparr>)"

text \<open>
  \<^verbatim>\<open>addParticleMultiple\<close> (l.310-324). \<open>pos\<close> and \<open>vel\<close> hold one \<open>float4\<close> per particle; the
  array called \<^verbatim>\<open>mass\<close> holds inverse masses. The count is an \<^verbatim>\<open>int\<close>, added to a \<^verbatim>\<open>uint\<close>.
\<close>

definition addParticleMultiple ::
  "float4 list \<Rightarrow> float4 list \<Rightarrow> xfloat list \<Rightarrow> float list \<Rightarrow> int list \<Rightarrow> int \<Rightarrow>
   ParticleSystem \<Rightarrow> ParticleSystem option" where
  "addParticleMultiple pos vel mass ro phase numParticles s =
     (if m_numParticles s + word_of_int numParticles \<ge> m_maxParticles s then Some s
      else
        case (read_array numParticles pos, read_array numParticles vel,
              read_array numParticles mass, read_array numParticles ro,
              read_array numParticles phase) of
          (Some p, Some v, Some w, Some r, Some ph) \<Rightarrow>
            let s1 = s\<lparr> posVbo := glBufferSubData (unat (m_numParticles s)) p (posVbo s) \<rparr>;
                s2 = appendIntegrationParticle v r s1;
                s3 = appendPhaseAndMass ph w s2
            in Some (s3\<lparr> m_numParticles := m_numParticles s3 + word_of_int numParticles \<rparr>)
        | _ \<Rightarrow> None)"

section \<open>The insertion queues\<close>

text \<open>
  \<^verbatim>\<open>colors[rand() % numColors]\<close>, for the \<open>k\<close>-th call of \<^verbatim>\<open>rand()\<close>. The remainder of C++
  truncates; a zero divisor and an index outside the table are undefined.
\<close>

definition c_rem :: "int \<Rightarrow> int \<Rightarrow> int" where
  "c_rem a b = sgn a * (\<bar>a\<bar> mod \<bar>b\<bar>)"

definition pick_color :: "env \<Rightarrow> nat \<Rightarrow> float3 option" where
  "pick_color E k =
     (if numColors E = 0 then None
      else
        let i = c_rem (rand_src E k) (numColors E)
        in if 0 \<le> i \<and> nat i < length (colors E) then Some (colors E ! nat i) else None)"

text \<open>\<^verbatim>\<open>setParticleToAdd\<close> (l.276-285).\<close>

definition setParticleToAdd ::
  "env \<Rightarrow> float3 \<Rightarrow> float3 \<Rightarrow> float \<Rightarrow> ParticleSystem \<Rightarrow> ParticleSystem option" where
  "setParticleToAdd E pos vel mass s =
     (let k = rand_count s;
          jitter = m_particleRadius s * (1 / 100);
          pos1 = make_float3 (f3x pos + (frand E k * 2 - 1) * jitter) (f3y pos) (f3z pos);
          pos2 = make_float3 (f3x pos1) (f3y pos1 + (frand E (k + 1) * 2 - 1) * jitter) (f3z pos1)
      in case pick_color E (k + 2) of
           None \<Rightarrow> None
         | Some c \<Rightarrow>
             Some (s\<lparr> m_particlesToAdd :=
                        m_particlesToAdd s @ [make_float4_3 pos2 1, make_float4_3 vel mass],
                      m_colorIndex :=
                        m_colorIndex s @
                          [make_int2 (sint (m_numParticles s)) (sint (m_numParticles s + 1))],
                      m_colors := m_colors s @ [make_float4_3 c 1],
                      rand_count := k + 3 \<rparr>))"

text \<open>\<^verbatim>\<open>setFluidToAdd\<close> (l.326-329).\<close>

definition setFluidToAdd ::
  "float3 \<Rightarrow> float3 \<Rightarrow> float \<Rightarrow> float \<Rightarrow> ParticleSystem \<Rightarrow> ParticleSystem" where
  "setFluidToAdd pos color mass density s =
     s\<lparr> m_fluidsToAdd := m_fluidsToAdd s @ [make_float4_3 pos mass, make_float4_3 color density] \<rparr>"

text \<open>
  \<^verbatim>\<open>addParticles\<close> (l.241-254). The loop runs \<open>size\<close> times and does not use its index: the
  first argument of \<open>addParticles_loop\<close> is the number of rounds left. \<^verbatim>\<open>front()\<close> of an empty
  queue is undefined.
\<close>

fun addParticles_loop :: "env \<Rightarrow> nat \<Rightarrow> ParticleSystem \<Rightarrow> ParticleSystem option" where
  "addParticles_loop E 0 s = Some s"
| "addParticles_loop E (Suc n) s =
     (case m_particlesToAdd s of
        pos # vel # rest \<Rightarrow>
          addParticles_loop E n
            (addParticle pos (make_float4 (f4x vel) (f4y vel) (f4z vel) 0) (f4w vel) (3 / 2)
               (SOLID E) (s\<lparr> m_particlesToAdd := rest \<rparr>))
      | _ \<Rightarrow> None)"

definition addParticles :: "env \<Rightarrow> ParticleSystem \<Rightarrow> ParticleSystem option" where
  "addParticles E s =
     (if m_particlesToAdd s = [] then Some s
      else addParticles_loop E (length (m_particlesToAdd s) div 2) s)"

text \<open>
  \<^verbatim>\<open>addFluids\<close> (l.256-274). The local \<^verbatim>\<open>color\<close> is not initialised: it is \<open>None\<close> until the
  loop assigns it, and reading it then is outside the model.
\<close>

fun addFluids_loop ::
  "env \<Rightarrow> nat \<Rightarrow> float4 option \<Rightarrow> ParticleSystem \<Rightarrow> (float4 option \<times> ParticleSystem) option" where
  "addFluids_loop E 0 color s = Some (color, s)"
| "addFluids_loop E (Suc n) color s =
     (case m_fluidsToAdd s of
        pos # c # rest \<Rightarrow>
          addFluids_loop E n (Some c)
            (addParticle (make_float4_3 (make_float3_4 pos) 1) (make_float4 0 (- 1) 0 0)
               (f4w pos) (f4w c) (FLUID E) (s\<lparr> m_fluidsToAdd := rest \<rparr>))
      | _ \<Rightarrow> None)"

definition addFluids :: "env \<Rightarrow> ParticleSystem \<Rightarrow> ParticleSystem option" where
  "addFluids E s =
     (if m_fluidsToAdd s = [] then Some s
      else
        let start = m_numParticles s
        in case addFluids_loop E (length (m_fluidsToAdd s) div 2) None s of
             Some (Some color, s') \<Rightarrow>
               Some (s'\<lparr> m_colorIndex :=
                           m_colorIndex s' @ [make_int2 (sint start) (sint (m_numParticles s'))],
                         m_colors := m_colors s' @ [make_float4_3 (make_float3_4 color) 1] \<rparr>)
           | _ \<Rightarrow> None)"

text \<open>\<^verbatim>\<open>addNewStuff\<close> (l.236-239).\<close>

definition addNewStuff :: "env \<Rightarrow> ParticleSystem \<Rightarrow> ParticleSystem option" where
  "addNewStuff E s = Option.bind (addParticles E s) (addFluids E)"

section \<open>One step of the simulation\<close>

text \<open>The body of the constraint loop (l.161-220): eight calls, in this order.\<close>

definition solver_iteration :: "ParticleSystem \<Rightarrow> ParticleSystem" where
  "solver_iteration s =
     s\<lparr> launches := launches s @
          [CalcHash (m_numParticles s),
           SortParticles (m_numParticles s),
           ReorderDataAndFindCellStart (m_numParticles s) (m_numGridCells s),
           Collide (m_numParticles s) (m_numGridCells s),
           SolveFluids (m_numParticles s) (m_numGridCells s),
           CollideWorld (m_numParticles s) (m_minBounds s) (m_maxBounds s),
           SolveDistanceConstraints,
           SolvePointConstraints] \<rparr>"

text \<open>The loop \<^verbatim>\<open>for (uint i = 0; i < m_solverIterations; i++)\<close> (l.160).\<close>

function solver_loop :: "uint \<Rightarrow> ParticleSystem \<Rightarrow> ParticleSystem" where
  "solver_loop i s =
     (if i < m_solverIterations s then solver_loop (i + 1) (solver_iteration s) else s)"
  by pat_completeness auto
termination
proof (relation "measure (\<lambda>(i, s). unat (m_solverIterations s) - unat i)")
  show "wf (measure (\<lambda>(i, s). unat (m_solverIterations s) - unat i))" by simp
next
  fix i :: uint and s :: ParticleSystem
  assume less: "i < m_solverIterations s"
  then have lt: "unat i < unat (m_solverIterations s)" by (simp add: word_less_nat_alt)
  moreover have "unat (m_solverIterations s) < 2 ^ 32"
    using unsigned_less [of "m_solverIterations s"] by simp
  ultimately have "unat i + 1 < 2 ^ 32" by simp
  then have "unat (i + 1) = Suc (unat i)" by (simp add: unat_word_ariths)
  with lt show "((i + 1, solver_iteration s), (i, s))
        \<in> measure (\<lambda>(i, s). unat (m_solverIterations s) - unat i)"
    by (simp add: solver_iteration_def)
qed

declare solver_loop.simps [simp del]

text \<open>\<^verbatim>\<open>update\<close> (l.135-234).\<close>

definition update :: "env \<Rightarrow> float \<Rightarrow> ParticleSystem \<Rightarrow> ParticleSystem option" where
  "update E dt s =
     (let deltaTime = min dt (5 / 100)
      in if m_numParticles s = 0 then addNewStuff E s
         else
           let s1 = s\<lparr> launches := launches s @
                        [MapGLBufferObject, SetParameters,
                         IntegrateSystem deltaTime (m_numParticles s)] \<rparr>;
               s2 = solver_loop 0 s1;
               s3 = s2\<lparr> launches := launches s2 @
                        [CalcVelocity deltaTime (m_numParticles s2), UnmapGLBufferObject] \<rparr>
           in addNewStuff E s3)"

section \<open>Shape builders\<close>

text \<open>
  The count of particles along the axes (l.336, l.384, l.574):
  \<^verbatim>\<open>make_int3((int)ceil(ur.x - ll.x) / distance, ...)\<close>. The cast binds tighter than the
  division, so \<^verbatim>\<open>ceil\<close> is applied to the integer extent, the result is divided by the float
  \<^verbatim>\<open>distance\<close>, and the quotient is converted to the \<^verbatim>\<open>int\<close> that \<^verbatim>\<open>make_int3\<close> takes.
\<close>

definition axis_count :: "int \<Rightarrow> int \<Rightarrow> float \<Rightarrow> int option" where
  "axis_count u l distance = f2i (fdiv (of_int \<lceil>(of_int (u - l) :: rat)\<rceil>) distance)"

definition lattice_count :: "int3 \<Rightarrow> int3 \<Rightarrow> float \<Rightarrow> int3 option" where
  "lattice_count ll ur distance =
     (case (axis_count (i3x ur) (i3x ll) distance,
            axis_count (i3y ur) (i3y ll) distance,
            axis_count (i3z ur) (i3z ll) distance) of
        (Some cx, Some cy, Some cz) \<Rightarrow> Some (make_int3 cx cy cz)
      | _ \<Rightarrow> None)"

text \<open>The same for the cloth (l.428), along \<^verbatim>\<open>spacing.x\<close> and \<^verbatim>\<open>spacing.z\<close>.\<close>

definition cloth_count :: "int2 \<Rightarrow> int2 \<Rightarrow> float3 \<Rightarrow> int2 option" where
  "cloth_count ll ur spacing =
     (case (axis_count (i2x ur) (i2x ll) (f3x spacing),
            axis_count (i2y ur) (i2y ll) (f3z spacing)) of
        (Some cx, Some cy) \<Rightarrow> Some (make_int2 cx cy)
      | _ \<Rightarrow> None)"

text \<open>
  The loop nest that fills \<^verbatim>\<open>pos\<close> in \<^verbatim>\<open>addFluid\<close> (l.347-365) and, with the same text, in
  \<^verbatim>\<open>addParticleGrid\<close> (l.395-413). \<^verbatim>\<open>TWOD\<close> is taken as not defined: \<^verbatim>\<open>addHorizCloth\<close> uses the
  variable of the \<^verbatim>\<open>z\<close> loop outside the \<^verbatim>\<open>#ifndef\<close>, so the file compiles only then. The
  loops carry the array filled so far (\<^verbatim>\<open>index\<close> is its length) and the count of calls of
  \<^verbatim>\<open>rand()\<close>; each particle draws three values, for x, y and z in this order.
\<close>

definition lattice_point ::
  "env \<Rightarrow> int3 \<Rightarrow> float \<Rightarrow> float \<Rightarrow> int \<Rightarrow> int \<Rightarrow> int \<Rightarrow> nat \<Rightarrow> float4" where
  "lattice_point E ll distance jitter z y x k =
     make_float4
       (of_int (i3x ll) + of_int x * distance + (frand E k * 2 - 1) * jitter)
       (of_int (i3y ll) + of_int y * distance + (frand E (k + 1) * 2 - 1) * jitter)
       (of_int (i3z ll) + of_int z * distance + (frand E (k + 2) * 2 - 1) * jitter)
       1"

function fill_x ::
  "env \<Rightarrow> int3 \<Rightarrow> int3 \<Rightarrow> float \<Rightarrow> float \<Rightarrow> int \<Rightarrow> int \<Rightarrow> int \<Rightarrow>
   float4 list \<times> nat \<Rightarrow> float4 list \<times> nat" where
  "fill_x E ll count distance jitter z y x (pos, k) =
     (if x < i3x count
      then fill_x E ll count distance jitter z y (x + 1)
             (pos @ [lattice_point E ll distance jitter z y x k], k + 3)
      else (pos, k))"
  by pat_completeness auto
termination
  by (relation "measure (\<lambda>(E, ll, count, distance, jitter, z, y, x, acc). nat (i3x count - x))")
     auto

declare fill_x.simps [simp del]

function fill_y ::
  "env \<Rightarrow> int3 \<Rightarrow> int3 \<Rightarrow> float \<Rightarrow> float \<Rightarrow> int \<Rightarrow> int \<Rightarrow>
   float4 list \<times> nat \<Rightarrow> float4 list \<times> nat" where
  "fill_y E ll count distance jitter z y acc =
     (if y < i3y count
      then fill_y E ll count distance jitter z (y + 1)
             (fill_x E ll count distance jitter z y 0 acc)
      else acc)"
  by pat_completeness auto
termination
  by (relation "measure (\<lambda>(E, ll, count, distance, jitter, z, y, acc). nat (i3y count - y))")
     auto

declare fill_y.simps [simp del]

function fill_z ::
  "env \<Rightarrow> int3 \<Rightarrow> int3 \<Rightarrow> float \<Rightarrow> float \<Rightarrow> int \<Rightarrow>
   float4 list \<times> nat \<Rightarrow> float4 list \<times> nat" where
  "fill_z E ll count distance jitter z acc =
     (if z < i3z count
      then fill_z E ll count distance jitter (z + 1)
             (fill_y E ll count distance jitter z 0 acc)
      else acc)"
  by pat_completeness auto
termination
  by (relation "measure (\<lambda>(E, ll, count, distance, jitter, z, acc). nat (i3z count - z))")
     auto

declare fill_z.simps [simp del]

text \<open>\<^verbatim>\<open>memset(vel, 0, ...)\<close> and \<^verbatim>\<open>std::fill\<close> over an array of \<open>n\<close> elements.\<close>

definition zero_vel :: "int \<Rightarrow> float4 list" where
  "zero_vel n = replicate (nat n) (make_float4 0 0 0 0)"

definition fill :: "int \<Rightarrow> 'a \<Rightarrow> 'a list" where
  "fill n v = replicate (nat n) v"

text \<open>
  The colour group that the builders push after the batch (l.421-422, l.518-519, l.567-568, l.630-631): the range from
  \<open>start\<close> to the current \<^verbatim>\<open>m_numParticles\<close>, and a colour drawn from the table.
\<close>

definition push_group :: "env \<Rightarrow> int \<Rightarrow> ParticleSystem \<Rightarrow> ParticleSystem option" where
  "push_group E start s =
     (case pick_color E (rand_count s) of
        None \<Rightarrow> None
      | Some c \<Rightarrow>
          Some (s\<lparr> m_colorIndex := m_colorIndex s @ [make_int2 start (sint (m_numParticles s))],
                   m_colors := m_colors s @ [make_float4_3 c 1],
                   rand_count := rand_count s + 1 \<rparr>))"

text \<open>
  \<^verbatim>\<open>addFluid\<close> (l.331-375). A variable-length array of negative size is undefined. The group
  \<open>(start, m_numParticles)\<close> and the colour are pushed whether or not the batch was admitted.
\<close>

definition addFluid ::
  "env \<Rightarrow> int3 \<Rightarrow> int3 \<Rightarrow> float \<Rightarrow> float \<Rightarrow> float3 \<Rightarrow> ParticleSystem \<Rightarrow> ParticleSystem option" where
  "addFluid E ll ur mass density color s =
     (let start = sint (m_numParticles s);
          jitter = m_particleRadius s * (1 / 100);
          distance = m_particleRadius s * (25 / 10)
      in case lattice_count ll ur distance of
           None \<Rightarrow> None
         | Some count \<Rightarrow>
             (let arraySize = i3x count * i3y count * i3z count;
                  filled = fill_z E ll count distance jitter 0 ([], rand_count s)
              in if arraySize < 0 then None
                 else
                   (case addParticleMultiple (fst filled) (zero_vel arraySize)
                            (fill arraySize (fdiv 1 mass)) (fill arraySize density)
                            (fill arraySize (FLUID E)) arraySize
                            (s\<lparr> rand_count := snd filled \<rparr>) of
                      None \<Rightarrow> None
                    | Some s' \<Rightarrow>
                        Some (s'\<lparr> m_colorIndex :=
                                    m_colorIndex s' @
                                      [make_int2 start (sint (m_numParticles s'))],
                                  m_colors := m_colors s' @ [make_float4_3 color 1] \<rparr>))))"

text \<open>\<^verbatim>\<open>addParticleGrid\<close> (l.377-423): the jitter is zero unless \<^verbatim>\<open>addJitter\<close> is set.\<close>

definition addParticleGrid ::
  "env \<Rightarrow> int3 \<Rightarrow> int3 \<Rightarrow> float \<Rightarrow> bool \<Rightarrow> ParticleSystem \<Rightarrow> ParticleSystem option" where
  "addParticleGrid E ll ur mass addJitter s =
     (let start = sint (m_numParticles s);
          jitter = (if addJitter then m_particleRadius s * (1 / 100) else 0);
          distance = m_particleRadius s * (2002 / 1000)
      in case lattice_count ll ur distance of
           None \<Rightarrow> None
         | Some count \<Rightarrow>
             (let arraySize = i3x count * i3y count * i3z count;
                  filled = fill_z E ll count distance jitter 0 ([], rand_count s)
              in if arraySize < 0 then None
                 else
                   Option.bind
                     (addParticleMultiple (fst filled) (zero_vel arraySize)
                        (fill arraySize (fdiv 1 mass)) (fill arraySize 1)
                        (fill arraySize (SOLID E)) arraySize
                        (s\<lparr> rand_count := snd filled \<rparr>))
                     (push_group E start)))"

text \<open>
  The loop nest of \<^verbatim>\<open>addHorizCloth\<close> (l.455-508). The five arrays are filled from their start
  (\<^verbatim>\<open>index\<close>, \<^verbatim>\<open>di\<close> and \<^verbatim>\<open>pi\<close> are the lengths of \<open>c_pos\<close>, \<open>c_dists\<close> and \<open>c_indicesP\<close>).
  \<^verbatim>\<open>particleIndex\<close> is a \<^verbatim>\<open>uint\<close> computed from \<^verbatim>\<open>int\<close>s.
\<close>

record cloth_arrays =
  c_pos :: "float4 list"
  c_indicesD :: "uint list"
  c_dists :: "float list"
  c_indicesP :: "uint list"
  c_points :: "float list"

definition cloth_pin :: "uint \<Rightarrow> float4 \<Rightarrow> cloth_arrays \<Rightarrow> cloth_arrays" where
  "cloth_pin particleIndex p a =
     a\<lparr> c_indicesP := c_indicesP a @ [particleIndex],
        c_points := c_points a @ [f4x p, f4y p, f4z p] \<rparr>"

definition cloth_link :: "uint \<Rightarrow> uint \<Rightarrow> float \<Rightarrow> cloth_arrays \<Rightarrow> cloth_arrays" where
  "cloth_link i j d a =
     a\<lparr> c_indicesD := c_indicesD a @ [i, j], c_dists := c_dists a @ [d] \<rparr>"

definition cloth_body ::
  "int \<Rightarrow> int2 \<Rightarrow> int2 \<Rightarrow> float3 \<Rightarrow> float2 \<Rightarrow> bool \<Rightarrow> int \<Rightarrow> int \<Rightarrow> cloth_arrays \<Rightarrow> cloth_arrays" where
  "cloth_body start ll count spacing dist' holdEdges z x a =
     (let p = make_float4 (of_int (i2x ll) + of_int x * f3x spacing) (f3y spacing)
                (of_int (i2y ll) + of_int z * f3z spacing) 1;
          particleIndex = (word_of_int (start + z * i2x count + x) :: uint);
          a0 = a\<lparr> c_pos := c_pos a @ [p] \<rparr>;
          a1 = (if x > 0 then cloth_link (particleIndex - 1) particleIndex (f2x dist') a0
                else cloth_pin particleIndex p a0);
          a2 = (if z > 0
                then cloth_link (particleIndex - word_of_int (i2x count)) particleIndex
                       (f2y dist') a1
                else if holdEdges then cloth_pin particleIndex p a1
                else a1);
          a3 = (if x = i2x count - 1 \<and> holdEdges then cloth_pin particleIndex p a2 else a2)
      in if z = i2y count - 1 \<and> holdEdges then cloth_pin particleIndex p a3 else a3)"

function cloth_x ::
  "int \<Rightarrow> int2 \<Rightarrow> int2 \<Rightarrow> float3 \<Rightarrow> float2 \<Rightarrow> bool \<Rightarrow> int \<Rightarrow> int \<Rightarrow> cloth_arrays \<Rightarrow> cloth_arrays" where
  "cloth_x start ll count spacing dist' holdEdges z x a =
     (if x < i2x count
      then cloth_x start ll count spacing dist' holdEdges z (x + 1)
             (cloth_body start ll count spacing dist' holdEdges z x a)
      else a)"
  by pat_completeness auto
termination
  by (relation "measure (\<lambda>(start, ll, count, spacing, dist', holdEdges, z, x, a). nat (i2x count - x))")
     auto

declare cloth_x.simps [simp del]

function cloth_z ::
  "int \<Rightarrow> int2 \<Rightarrow> int2 \<Rightarrow> float3 \<Rightarrow> float2 \<Rightarrow> bool \<Rightarrow> int \<Rightarrow> cloth_arrays \<Rightarrow> cloth_arrays" where
  "cloth_z start ll count spacing dist' holdEdges z a =
     (if z < i2y count
      then cloth_z start ll count spacing dist' holdEdges (z + 1)
             (cloth_x start ll count spacing dist' holdEdges z 0 a)
      else a)"
  by pat_completeness auto
termination
  by (relation "measure (\<lambda>(start, ll, count, spacing, dist', holdEdges, z, a). nat (i2y count - z))")
     auto

declare cloth_z.simps [simp del]

text \<open>
  \<^verbatim>\<open>addHorizCloth\<close> (l.425-521). The sizes of the constraint arrays are \<^verbatim>\<open>uint\<close>s computed
  from \<^verbatim>\<open>int\<close>s; a negative value (an array of some 2^32 elements on the stack) is outside the
  model. The constraints, the group and the next rigid index follow the batch whether or not
  it was admitted.
\<close>

definition addHorizCloth ::
  "env \<Rightarrow> int2 \<Rightarrow> int2 \<Rightarrow> float3 \<Rightarrow> float2 \<Rightarrow> float \<Rightarrow> bool \<Rightarrow> ParticleSystem \<Rightarrow>
   ParticleSystem option" where
  "addHorizCloth E ll ur spacing dist' mass holdEdges s =
     (let start = sint (m_numParticles s)
      in case cloth_count ll ur spacing of
           None \<Rightarrow> None
         | Some count \<Rightarrow>
             (let arraySize = i2x count * i2y count;
                  numDists = (i2x count - 1) * (i2y count - 1) + i2x count * i2y count - 1;
                  numPoints = (if holdEdges then 2 * (i2x count + i2y count) else i2y count);
                  a = cloth_z start ll count spacing dist' holdEdges 0
                        \<lparr> c_pos = [], c_indicesD = [], c_dists = [], c_indicesP = [],
                          c_points = [] \<rparr>
              in if arraySize < 0 \<or> numDists < 0 \<or> numPoints < 0 then None
                 else
                   Option.bind
                     (addParticleMultiple (c_pos a) (zero_vel arraySize)
                        (fill arraySize (fdiv 1 mass)) (fill arraySize 1)
                        (fill arraySize (RIGID E + m_rigidIndex s)) arraySize s)
                     (\<lambda>s1. Option.bind (addPointConstraint (c_indicesP a) (c_points a) numPoints s1)
                     (\<lambda>s2. Option.bind (addDistanceConstraint (c_indicesD a) (c_dists a) numDists s2)
                     (\<lambda>s3. Option.bind (push_group E start s3)
                     (\<lambda>s4. Some (s4\<lparr> m_rigidIndex := m_rigidIndex s4 + 1 \<rparr>)))))))"

text \<open>
  The loop of \<^verbatim>\<open>addRope\<close> (l.546-555), over \<open>i = 1, ..., numLinks\<close>: the position of particle
  \<open>i\<close>, and the link from particle \<open>startI + i - 1\<close> to particle \<open>startI + i\<close>.
\<close>

function rope_loop ::
  "uint \<Rightarrow> float3 \<Rightarrow> float3 \<Rightarrow> float \<Rightarrow> int \<Rightarrow> int \<Rightarrow>
   float4 list \<times> uint list \<times> float list \<Rightarrow> float4 list \<times> uint list \<times> float list" where
  "rope_loop startI start spacing dist' numLinks i (pos, indicesD, dists) =
     (if i \<le> numLinks
      then rope_loop startI start spacing dist' numLinks (i + 1)
             (pos @ [make_float4_3 (float3_add start (float3_scale (of_int i) spacing)) 1],
              indicesD @ [startI + word_of_int i - 1, startI + word_of_int i],
              dists @ [dist'])
      else (pos, indicesD, dists))"
  by pat_completeness auto
termination
  by (relation "measure (\<lambda>(startI, start, spacing, dist', numLinks, i, acc). nat (numLinks + 1 - i))")
     auto

declare rope_loop.simps [simp del]

text \<open>
  \<^verbatim>\<open>addRope\<close> (l.523-570). With a negative \<^verbatim>\<open>numLinks\<close> an array has a negative size or
  \<^verbatim>\<open>pos[0]\<close> is written past its end: undefined. The distance constraints, the pin of the first
  particle, the group and the next rigid index follow the batch whether or not it was
  admitted.
\<close>

definition addRope ::
  "env \<Rightarrow> float3 \<Rightarrow> float3 \<Rightarrow> float \<Rightarrow> int \<Rightarrow> float \<Rightarrow> bool \<Rightarrow> ParticleSystem \<Rightarrow>
   ParticleSystem option" where
  "addRope E start spacing dist' numLinks mass constrainStart s =
     (let startI = m_numParticles s;
          arraySize = numLinks + 1;
          filled = rope_loop startI start spacing dist' numLinks 1
                     ([make_float4 (f3x start) (f3y start) (f3z start) 1], [], [])
      in if numLinks < 0 then None
         else
           Option.bind
             (addParticleMultiple (fst filled) (zero_vel arraySize)
                (fill arraySize (fdiv 1 mass)) (fill arraySize 1)
                (fill arraySize (RIGID E + m_rigidIndex s)) arraySize s)
             (\<lambda>s1. Option.bind (addDistanceConstraint (fst (snd filled)) (snd (snd filled)) numLinks s1)
             (\<lambda>s2. Option.bind
                      (if constrainStart
                       then addPointConstraint [startI] [f3x start, f3y start, f3z start] 1 s2
                       else Some s2)
             (\<lambda>s3. Option.bind (push_group E (sint startI) s3)
             (\<lambda>s4. Some (s4\<lparr> m_rigidIndex := m_rigidIndex s4 + 1 \<rparr>))))))"

text \<open>
  The loop nest of \<^verbatim>\<open>addStaticSphere\<close> (l.586-615). \<^verbatim>\<open>length(v) < radius\<close> takes a square
  root; over the rationals it is stated on the squares. \<^verbatim>\<open>index\<close> is the length of
  \<open>indices\<close>.
\<close>

definition length_lt :: "float3 \<Rightarrow> float \<Rightarrow> bool" where
  "length_lt v r = (0 < r \<and> dot v v < r * r)"

definition sphere_body ::
  "uint \<Rightarrow> int3 \<Rightarrow> float \<Rightarrow> float3 \<Rightarrow> float \<Rightarrow> int \<Rightarrow> int \<Rightarrow> int \<Rightarrow>
   float4 list \<times> uint list \<times> float list \<Rightarrow> float4 list \<times> uint list \<times> float list" where
  "sphere_body startI ll spacing center radius z y x acc =
     (let pos = make_float4 (of_int (i3x ll) + of_int x * spacing)
                  (of_int (i3y ll) + of_int y * spacing)
                  (of_int (i3z ll) + of_int z * spacing) 1;
          posV = fst acc; indices = fst (snd acc); points = snd (snd acc)
      in if length_lt (float3_sub (make_float3_4 pos) center) radius
         then (posV @ [pos], indices @ [startI + of_nat (length indices)],
               points @ [f4x pos, f4y pos, f4z pos])
         else acc)"

function sphere_x ::
  "uint \<Rightarrow> int3 \<Rightarrow> int3 \<Rightarrow> float \<Rightarrow> float3 \<Rightarrow> float \<Rightarrow> int \<Rightarrow> int \<Rightarrow> int \<Rightarrow>
   float4 list \<times> uint list \<times> float list \<Rightarrow> float4 list \<times> uint list \<times> float list" where
  "sphere_x startI ll count spacing center radius z y x acc =
     (if x < i3x count
      then sphere_x startI ll count spacing center radius z y (x + 1)
             (sphere_body startI ll spacing center radius z y x acc)
      else acc)"
  by pat_completeness auto
termination
  by (relation "measure (\<lambda>(startI, ll, count, spacing, center, radius, z, y, x, acc).
                   nat (i3x count - x))")
     auto

declare sphere_x.simps [simp del]

function sphere_y ::
  "uint \<Rightarrow> int3 \<Rightarrow> int3 \<Rightarrow> float \<Rightarrow> float3 \<Rightarrow> float \<Rightarrow> int \<Rightarrow> int \<Rightarrow>
   float4 list \<times> uint list \<times> float list \<Rightarrow> float4 list \<times> uint list \<times> float list" where
  "sphere_y startI ll count spacing center radius z y acc =
     (if y < i3y count
      then sphere_y startI ll count spacing center radius z (y + 1)
             (sphere_x startI ll count spacing center radius z y 0 acc)
      else acc)"
  by pat_completeness auto
termination
  by (relation "measure (\<lambda>(startI, ll, count, spacing, center, radius, z, y, acc).
                   nat (i3y count - y))")
     auto

declare sphere_y.simps [simp del]

function sphere_z ::
  "uint \<Rightarrow> int3 \<Rightarrow> int3 \<Rightarrow> float \<Rightarrow> float3 \<Rightarrow> float \<Rightarrow> int \<Rightarrow>
   float4 list \<times> uint list \<times> float list \<Rightarrow> float4 list \<times> uint list \<times> float list" where
  "sphere_z startI ll count spacing center radius z acc =
     (if z < i3z count
      then sphere_z startI ll count spacing center radius (z + 1)
             (sphere_y startI ll count spacing center radius z 0 acc)
      else acc)"
  by pat_completeness auto
termination
  by (relation "measure (\<lambda>(startI, ll, count, spacing, center, radius, z, acc).
                   nat (i3z count - z))")
     auto

declare sphere_z.simps [simp del]

text \<open>\<^verbatim>\<open>addStaticSphere\<close> (l.572-633).\<close>

definition addStaticSphere ::
  "env \<Rightarrow> int3 \<Rightarrow> int3 \<Rightarrow> float \<Rightarrow> ParticleSystem \<Rightarrow> ParticleSystem option" where
  "addStaticSphere E ll ur spacing s =
     (let startI = m_numParticles s
      in case lattice_count ll ur spacing of
           None \<Rightarrow> None
         | Some count \<Rightarrow>
             (let radius = of_int (i3x ur - i3x ll) * (5 / 10);
                  center = float3_add (make_float3 (of_int (i3x ll)) (of_int (i3y ll))
                             (of_int (i3z ll))) (make_float3 radius radius radius);
                  filled = sphere_z startI ll count spacing center radius 0 ([], [], []);
                  arraySize = int (length (fst (snd filled)))
              in Option.bind
                   (addParticleMultiple (fst filled) (zero_vel arraySize)
                      (fill arraySize (Fin (1 / 100))) (fill arraySize 1)
                      (fill arraySize (RIGID E + m_rigidIndex s)) arraySize s)
                   (\<lambda>s1. Option.bind
                            (addPointConstraint (fst (snd filled)) (snd (snd filled))
                               (int (length (fst (snd filled)))) s1)
                   (\<lambda>s2. Option.bind (push_group E (sint startI) s2)
                   (\<lambda>s3. Some (s3\<lparr> m_rigidIndex := m_rigidIndex s3 + 1 \<rparr>))))))"

text \<open>\<^verbatim>\<open>makePointConstraint\<close> and \<^verbatim>\<open>makeDistanceConstraint\<close> (l.635-641).\<close>

definition makePointConstraint :: "uint \<Rightarrow> float3 \<Rightarrow> ParticleSystem \<Rightarrow> ParticleSystem option" where
  "makePointConstraint index point s =
     addPointConstraint [index] [f3x point, f3y point, f3z point] 1 s"

definition makeDistanceConstraint ::
  "uint \<Rightarrow> uint \<Rightarrow> float \<Rightarrow> ParticleSystem \<Rightarrow> ParticleSystem option" where
  "makeDistanceConstraint i j distance s = addDistanceConstraint [i, j] [distance] 1 s"

section \<open>Sequences of calls\<close>

text \<open>The operations of the engine, and a run of the engine over a list of them.\<close>

datatype op =
    AddParticle float4 float4 float float int
  | AddParticleMultiple "float4 list" "float4 list" "xfloat list" "float list" "int list" int
  | SetParticleToAdd float3 float3 float
  | SetFluidToAdd float3 float3 float float
  | AddNewStuff
  | AddFluid int3 int3 float float float3
  | AddParticleGrid int3 int3 float bool
  | AddHorizCloth int2 int2 float3 float2 float bool
  | AddRope float3 float3 float int float bool
  | AddStaticSphere int3 int3 float
  | MakePointConstraint uint float3
  | MakeDistanceConstraint uint uint float
  | Update float

fun apply_op :: "env \<Rightarrow> op \<Rightarrow> ParticleSystem \<Rightarrow> ParticleSystem option" where
  "apply_op E (AddParticle pos vel mass ro phase) s = Some (addParticle pos vel mass ro phase s)"
| "apply_op E (AddParticleMultiple pos vel mass ro phase n) s =
     addParticleMultiple pos vel mass ro phase n s"
| "apply_op E (SetParticleToAdd pos vel mass) s = setParticleToAdd E pos vel mass s"
| "apply_op E (SetFluidToAdd pos color mass density) s =
     Some (setFluidToAdd pos color mass density s)"
| "apply_op E AddNewStuff s = addNewStuff E s"
| "apply_op E (AddFluid ll ur mass density color) s = addFluid E ll ur mass density color s"
| "apply_op E (AddParticleGrid ll ur mass addJitter) s = addParticleGrid E ll ur mass addJitter s"
| "apply_op E (AddHorizCloth ll ur spacing dist' mass holdEdges) s =
     addHorizCloth E ll ur spacing dist' mass holdEdges s"
| "apply_op E (AddRope start spacing dist' numLinks mass constrainStart) s =
     addRope E start spacing dist' numLinks mass constrainStart s"
| "apply_op E (AddStaticSphere ll ur spacing) s = addStaticSphere E ll ur spacing s"
| "apply_op E (MakePointConstraint index point) s = makePointConstraint index point s"
| "apply_op E (MakeDistanceConstraint i j distance) s = makeDistanceConstraint i j distance s"
| "apply_op E (Update dt) s = update E dt s"

fun run :: "env \<Rightarrow> op list \<Rightarrow> ParticleSystem \<Rightarrow> ParticleSystem option" where
  "run E [] s = Some s"
| "run E (x # xs) s = Option.bind (apply_op E x s) (run E xs)"

section \<open>Notions used in the statements\<close>

text \<open>
  The order of calls that the spec gives for one step over \<open>n\<close> particles: predict, then
  \<open>k\<close> rounds of the constraint loop, then the velocities.
\<close>

definition round_calls :: "uint \<Rightarrow> uint \<Rightarrow> int3 \<Rightarrow> int3 \<Rightarrow> launch list" where
  "round_calls n cells lo hi =
     [CalcHash n, SortParticles n, ReorderDataAndFindCellStart n cells, Collide n cells,
      SolveFluids n cells, CollideWorld n lo hi, SolveDistanceConstraints,
      SolvePointConstraints]"

definition step_calls :: "float \<Rightarrow> uint \<Rightarrow> uint \<Rightarrow> int3 \<Rightarrow> int3 \<Rightarrow> nat \<Rightarrow> launch list" where
  "step_calls dt n cells lo hi k =
     [MapGLBufferObject, SetParameters, IntegrateSystem dt n]
     @ concat (replicate k (round_calls n cells lo hi))
     @ [CalcVelocity dt n, UnmapGLBufferObject]"

text \<open>An environment and an engine for the examples: capacity 10, three solver rounds.\<close>

definition env0 :: env where
  "env0 = \<lparr> rand_src = (\<lambda>k. RAND_MAX), colors = [make_float3 1 0 0, make_float3 0 0 1],
            numColors = 2, SOLID = 0, FLUID = 1, RIGID = 2 \<rparr>"

definition engine0 :: ParticleSystem where
  "engine0 = ParticleSystem_new 1 (make_uint3 4 4 4) 10 (make_int3 0 0 0) (make_int3 8 8 8) 3"

text \<open>The capacity invariant: the count of particles is at most the capacity \<open>maxP\<close>.\<close>

definition within_capacity :: "uint \<Rightarrow> ParticleSystem \<Rightarrow> bool" where
  "within_capacity maxP s = (m_numParticles s \<le> maxP \<and> m_maxParticles s = maxP)"

text \<open>Ten single admissions, which fill \<open>engine0\<close>.\<close>

definition ten_particles :: "op list" where
  "ten_particles = replicate 10 (AddParticle (make_float4 0 0 0 1) (make_float4 0 0 0 0) 1 1 0)"

text \<open>Four single admissions, and a batch of six that would fill \<open>engine0\<close> exactly.\<close>

definition four_particles :: "op list" where
  "four_particles = replicate 4 (AddParticle (make_float4 0 0 0 1) (make_float4 0 0 0 0) 1 1 0)"

definition six_batch :: op where
  "six_batch =
     AddParticleMultiple (replicate 6 (make_float4 0 0 0 1)) (replicate 6 (make_float4 0 0 0 0))
       (replicate 6 (Fin 1)) (replicate 6 1) (replicate 6 0) 6"

text \<open>\<open>engine0\<close> after one admission.\<close>

definition one_particle :: ParticleSystem where
  "one_particle = addParticle (make_float4 0 0 0 1) (make_float4 0 0 0 0) 1 1 0 engine0"

text \<open>The rope of the scripted scenario: five links of length 1 from the origin.\<close>

definition rope5 :: op where
  "rope5 = AddRope (make_float3 0 0 0) (make_float3 1 0 0) 1 5 1 True"


text \<open>The values of \<^verbatim>\<open>rand()\<close> lie between 0 and \<^verbatim>\<open>RAND_MAX\<close>.\<close>

definition rand_ok :: "env \<Rightarrow> bool" where
  "rand_ok E = (\<forall>k. 0 \<le> rand_src E k \<and> rand_src E k \<le> RAND_MAX)"

text \<open>Two positions differ by at most \<open>\<bar>j\<bar>\<close> in x, y and z, and agree in w.\<close>

definition near :: "float \<Rightarrow> float4 \<Rightarrow> float4 \<Rightarrow> bool" where
  "near j p q =
     (\<bar>f4x p - f4x q\<bar> \<le> \<bar>j\<bar> \<and> \<bar>f4y p - f4y q\<bar> \<le> \<bar>j\<bar> \<and> \<bar>f4z p - f4z q\<bar> \<le> \<bar>j\<bar> \<and>
      f4w p = f4w q)"

text \<open>
  The lattice without jitter: the point \<open>ll + (x, y, z) * d\<close> for every \<open>z\<close>, \<open>y\<close> and \<open>x\<close>
  below the counts, \<open>x\<close> running fastest; and the sheet of the cloth at the height
  \<^verbatim>\<open>spacing.y\<close>.
\<close>

definition lattice_at :: "int3 \<Rightarrow> float \<Rightarrow> int \<Rightarrow> int \<Rightarrow> int \<Rightarrow> float4" where
  "lattice_at ll d z y x =
     make_float4 (of_int (i3x ll) + of_int x * d) (of_int (i3y ll) + of_int y * d)
       (of_int (i3z ll) + of_int z * d) 1"

definition lattice_points :: "int3 \<Rightarrow> int3 \<Rightarrow> float \<Rightarrow> float4 list" where
  "lattice_points ll count d =
     concat (map (\<lambda>z. concat (map (\<lambda>y. map (lattice_at ll d z y) [0..i3x count - 1])
                                [0..i3y count - 1]))
               [0..i3z count - 1])"

definition cloth_at :: "int2 \<Rightarrow> float3 \<Rightarrow> int \<Rightarrow> int \<Rightarrow> float4" where
  "cloth_at ll spacing z x =
     make_float4 (of_int (i2x ll) + of_int x * f3x spacing) (f3y spacing)
       (of_int (i2y ll) + of_int z * f3z spacing) 1"

definition cloth_points :: "int2 \<Rightarrow> int2 \<Rightarrow> float3 \<Rightarrow> float4 list" where
  "cloth_points ll count spacing =
     concat (map (\<lambda>z. map (cloth_at ll spacing z) [0..i2x count - 1]) [0..i2y count - 1])"

text \<open>
  A position with the jitter of the builders: each of x, y and z is moved by
  \<open>(frand() * 2 - 1) * j\<close>, with three successive values of \<^verbatim>\<open>frand()\<close>, the first of them
  from the \<open>k\<close>-th call of \<^verbatim>\<open>rand()\<close>. A list of positions with jitter: the position at index
  \<open>i\<close> draws the values from call \<open>k + 3 * i\<close> on.
\<close>

definition jitter_at :: "env \<Rightarrow> float \<Rightarrow> nat \<Rightarrow> float4 \<Rightarrow> float4" where
  "jitter_at E j k p =
     make_float4 (f4x p + (frand E k * 2 - 1) * j) (f4y p + (frand E (k + 1) * 2 - 1) * j)
       (f4z p + (frand E (k + 2) * 2 - 1) * j) (f4w p)"

definition jittered :: "env \<Rightarrow> float \<Rightarrow> nat \<Rightarrow> float4 list \<Rightarrow> float4 list" where
  "jittered E j k lat = map (\<lambda>(i, p). jitter_at E j (k + 3 * i) p) (enumerate 0 lat)"

text \<open>
  What a builder that generated the array \<open>gen\<close> for a batch of \<open>n\<close> leaves in the engine:
  nothing when the batch is refused, and otherwise all of \<open>gen\<close>, which has \<open>n\<close> elements, in
  the slots from the old count on.
\<close>

definition uploads :: "ParticleSystem \<Rightarrow> ParticleSystem \<Rightarrow> int \<Rightarrow> float4 list \<Rightarrow> bool" where
  "uploads s s' n gen =
     (if m_maxParticles s \<le> m_numParticles s + word_of_int n
      then posVbo s' = posVbo s \<and> m_numParticles s' = m_numParticles s
      else length gen = nat n \<and>
           posVbo s' = glBufferSubData (unat (m_numParticles s)) gen (posVbo s) \<and>
           m_numParticles s' = m_numParticles s + word_of_int n)"

section \<open>The capacity invariant\<close>

lemma addParticle_capacity:
  "within_capacity c s \<Longrightarrow> within_capacity c (addParticle pos vel mass ro phase s)"
  by (auto simp: within_capacity_def addParticle_def Let_def appendIntegrationParticle_def
      appendPhaseAndMass_def intro: inc_le)

lemma addParticleMultiple_capacity:
  "addParticleMultiple pos vel mass ro phase n s = Some s' \<Longrightarrow> within_capacity c s \<Longrightarrow>
   within_capacity c s'"
  by (auto simp: within_capacity_def addParticleMultiple_def Let_def appendIntegrationParticle_def
      appendPhaseAndMass_def split: if_splits option.splits)

lemma addDistanceConstraint_capacity:
  "addDistanceConstraint ix ds n s = Some s' \<Longrightarrow> within_capacity c s \<Longrightarrow> within_capacity c s'"
  by (auto simp: within_capacity_def addDistanceConstraint_def split: option.splits)

lemma addPointConstraint_capacity:
  "addPointConstraint ix ps n s = Some s' \<Longrightarrow> within_capacity c s \<Longrightarrow> within_capacity c s'"
  by (auto simp: within_capacity_def addPointConstraint_def split: option.splits)

lemma push_group_capacity:
  "push_group E start s = Some s' \<Longrightarrow> within_capacity c s \<Longrightarrow> within_capacity c s'"
  by (auto simp: within_capacity_def push_group_def split: option.splits)

lemma addParticles_loop_capacity:
  "addParticles_loop E n s = Some s' \<Longrightarrow> within_capacity c s \<Longrightarrow> within_capacity c s'"
proof (induction n arbitrary: s)
  case 0
  then show ?case by simp
next
  case (Suc n)
  from Suc.prems(1) obtain pos vel rest where q: "m_particlesToAdd s = pos # vel # rest"
    and step: "addParticles_loop E n
            (addParticle pos (make_float4 (f4x vel) (f4y vel) (f4z vel) 0) (f4w vel) (3 / 2)
               (SOLID E) (s\<lparr> m_particlesToAdd := rest \<rparr>)) = Some s'"
    by (auto split: list.splits)
  have "within_capacity c (s\<lparr> m_particlesToAdd := rest \<rparr>)"
    using Suc.prems(2) by (simp add: within_capacity_def)
  then show ?case using Suc.IH [OF step] addParticle_capacity by blast
qed

lemma addFluids_loop_capacity:
  "addFluids_loop E n col s = Some (col', s') \<Longrightarrow> within_capacity c s \<Longrightarrow> within_capacity c s'"
proof (induction n arbitrary: s col)
  case 0
  then show ?case by simp
next
  case (Suc n)
  from Suc.prems(1) obtain pos cl rest where q: "m_fluidsToAdd s = pos # cl # rest"
    and step: "addFluids_loop E n (Some cl)
            (addParticle (make_float4_3 (make_float3_4 pos) 1) (make_float4 0 (- 1) 0 0)
               (f4w pos) (f4w cl) (FLUID E) (s\<lparr> m_fluidsToAdd := rest \<rparr>)) = Some (col', s')"
    by (auto split: list.splits)
  have "within_capacity c (s\<lparr> m_fluidsToAdd := rest \<rparr>)"
    using Suc.prems(2) by (simp add: within_capacity_def)
  then show ?case using Suc.IH [OF step] addParticle_capacity by blast
qed

lemma addNewStuff_capacity:
  "addNewStuff E s = Some s' \<Longrightarrow> within_capacity c s \<Longrightarrow> within_capacity c s'"
proof -
  assume a: "addNewStuff E s = Some s'" and w: "within_capacity c s"
  from a obtain t where t: "addParticles E s = Some t" and f: "addFluids E t = Some s'"
    by (auto simp: addNewStuff_def split: Option.bind_splits)
  have wt: "within_capacity c t"
    using t w addParticles_loop_capacity by (auto simp: addParticles_def split: if_splits)
  show ?thesis
  proof (cases "m_fluidsToAdd t = []")
    case True
    then show ?thesis using f wt by (simp add: addFluids_def)
  next
    case False
    then obtain col u where l: "addFluids_loop E (length (m_fluidsToAdd t) div 2) None t = Some (Some col, u)"
      and s': "s' = u\<lparr> m_colorIndex :=
                           m_colorIndex u @ [make_int2 (sint (m_numParticles t)) (sint (m_numParticles u))],
                         m_colors := m_colors u @ [make_float4_3 (make_float3_4 col) 1] \<rparr>"
      using f by (auto simp: addFluids_def Let_def split: option.splits)
    from addFluids_loop_capacity [OF l wt] show ?thesis
      by (simp add: s' within_capacity_def)
  qed
qed

lemma solver_loop_launches:
  "i \<le> m_solverIterations s \<Longrightarrow>
   solver_loop i s =
     s\<lparr> launches := launches s @
          concat (replicate (unat (m_solverIterations s) - unat i)
            (round_calls (m_numParticles s) (m_numGridCells s) (m_minBounds s) (m_maxBounds s))) \<rparr>"
proof (induction i s rule: solver_loop.induct)
  case (1 i s)
  show ?case
  proof (cases "i < m_solverIterations s")
    case True
    then have lt: "unat i < unat (m_solverIterations s)" by (simp add: word_less_nat_alt)
    moreover have "unat (m_solverIterations s) < 2 ^ 32"
      using unsigned_less [of "m_solverIterations s"] by simp
    ultimately have "unat i + 1 < 2 ^ 32" by simp
    then have suc: "unat (i + 1) = Suc (unat i)" by (simp add: unat_word_ariths)
    have le: "i + 1 \<le> m_solverIterations (solver_iteration s)"
      using True by (simp add: solver_iteration_def inc_le)
    have rep: "unat (m_solverIterations s) - unat i = Suc (unat (m_solverIterations s) - unat (i + 1))"
      using lt suc by simp
    show ?thesis
      using "1.IH" [OF True le] True
      apply (subst solver_loop.simps)
      apply (simp only: if_True rep)
      apply (simp add: solver_iteration_def round_calls_def)
      done
  next
    case False
    with "1.prems" have "i = m_solverIterations s" by simp
    then show ?thesis by (subst solver_loop.simps) simp
  qed
qed


lemma solver_loop_capacity:
  "within_capacity c (solver_loop 0 s) = within_capacity c s"
  by (simp add: solver_loop_launches within_capacity_def)

lemma update_capacity:
  "update E dt s = Some s' \<Longrightarrow> within_capacity c s \<Longrightarrow> within_capacity c s'"
proof -
  assume u: "update E dt s = Some s'" and w: "within_capacity c s"
  show ?thesis
  proof (cases "m_numParticles s = 0")
    case True
    then show ?thesis using u w addNewStuff_capacity by (simp add: update_def)
  next
    case False
    define s1 where "s1 = s\<lparr> launches := launches s @
                        [MapGLBufferObject, SetParameters,
                         IntegrateSystem (min dt (5 / 100)) (m_numParticles s)] \<rparr>"
    define s2 where "s2 = solver_loop 0 s1"
    define s3 where "s3 = s2\<lparr> launches := launches s2 @
                        [CalcVelocity (min dt (5 / 100)) (m_numParticles s2), UnmapGLBufferObject] \<rparr>"
    have "addNewStuff E s3 = Some s'"
      using u False by (simp add: update_def Let_def s1_def s2_def s3_def)
    moreover have "within_capacity c s3"
      using w solver_loop_capacity [of c s1]
      by (simp add: s3_def s2_def s1_def within_capacity_def)
    ultimately show ?thesis by (rule addNewStuff_capacity)
  qed
qed

lemma setParticleToAdd_capacity:
  "setParticleToAdd E pos vel mass s = Some s' \<Longrightarrow> within_capacity c s \<Longrightarrow> within_capacity c s'"
  by (auto simp: setParticleToAdd_def Let_def within_capacity_def split: option.splits)

lemma setFluidToAdd_capacity:
  "within_capacity c s \<Longrightarrow> within_capacity c (setFluidToAdd pos color mass density s)"
  by (simp add: setFluidToAdd_def within_capacity_def)

lemma rand_count_capacity:
  "within_capacity c (s\<lparr> rand_count := k \<rparr>) = within_capacity c s"
  by (simp add: within_capacity_def)

lemma rigidIndex_capacity:
  "within_capacity c (s\<lparr> m_rigidIndex := k \<rparr>) = within_capacity c s"
  by (simp add: within_capacity_def)

lemma addFluid_capacity:
  "addFluid E ll ur mass density color s = Some s' \<Longrightarrow> within_capacity c s \<Longrightarrow>
   within_capacity c s'"
  by (auto simp: addFluid_def Let_def within_capacity_def
      split: option.splits if_splits
      dest!: addParticleMultiple_capacity [where c = c])

lemma addParticleGrid_capacity:
  "addParticleGrid E ll ur mass addJitter s = Some s' \<Longrightarrow> within_capacity c s \<Longrightarrow>
   within_capacity c s'"
  by (auto simp: addParticleGrid_def Let_def bind_eq_Some_conv rand_count_capacity
      split: option.splits if_splits
      dest!: addParticleMultiple_capacity [where c = c] push_group_capacity [where c = c])

lemma addHorizCloth_capacity:
  "addHorizCloth E ll ur spacing dist' mass holdEdges s = Some s' \<Longrightarrow> within_capacity c s \<Longrightarrow>
   within_capacity c s'"
  by (auto simp: addHorizCloth_def Let_def bind_eq_Some_conv rigidIndex_capacity
      split: option.splits if_splits
      dest!: addParticleMultiple_capacity [where c = c] push_group_capacity [where c = c]
        addPointConstraint_capacity [where c = c] addDistanceConstraint_capacity [where c = c])

lemma addRope_capacity:
  "addRope E start spacing dist' numLinks mass constrainStart s = Some s' \<Longrightarrow>
   within_capacity c s \<Longrightarrow> within_capacity c s'"
  by (auto simp: addRope_def Let_def bind_eq_Some_conv rigidIndex_capacity
      split: option.splits if_splits
      dest!: addParticleMultiple_capacity [where c = c] push_group_capacity [where c = c]
        addPointConstraint_capacity [where c = c] addDistanceConstraint_capacity [where c = c])

lemma addStaticSphere_capacity:
  "addStaticSphere E ll ur spacing s = Some s' \<Longrightarrow> within_capacity c s \<Longrightarrow>
   within_capacity c s'"
  by (auto simp: addStaticSphere_def Let_def bind_eq_Some_conv rigidIndex_capacity
      split: option.splits if_splits
      dest!: addParticleMultiple_capacity [where c = c] push_group_capacity [where c = c]
        addPointConstraint_capacity [where c = c])

lemma apply_op_capacity:
  "apply_op E x s = Some s' \<Longrightarrow> within_capacity c s \<Longrightarrow> within_capacity c s'"
proof (cases x)
  case (AddParticle pos vel mass ro phase)
  then show "apply_op E x s = Some s' \<Longrightarrow> within_capacity c s \<Longrightarrow> within_capacity c s'"
    using addParticle_capacity by auto
next
  case (AddParticleMultiple pos vel mass ro phase n)
  then show "apply_op E x s = Some s' \<Longrightarrow> within_capacity c s \<Longrightarrow> within_capacity c s'"
    using addParticleMultiple_capacity by auto
next
  case (SetParticleToAdd pos vel mass)
  then show "apply_op E x s = Some s' \<Longrightarrow> within_capacity c s \<Longrightarrow> within_capacity c s'"
    using setParticleToAdd_capacity by auto
next
  case (SetFluidToAdd pos color mass density)
  then show "apply_op E x s = Some s' \<Longrightarrow> within_capacity c s \<Longrightarrow> within_capacity c s'"
    using setFluidToAdd_capacity by auto
next
  case AddNewStuff
  then show "apply_op E x s = Some s' \<Longrightarrow> within_capacity c s \<Longrightarrow> within_capacity c s'"
    using addNewStuff_capacity by auto
next
  case (AddFluid ll ur mass density color)
  then show "apply_op E x s = Some s' \<Longrightarrow> within_capacity c s \<Longrightarrow> within_capacity c s'"
    using addFluid_capacity by auto
next
  case (AddParticleGrid ll ur mass addJitter)
  then show "apply_op E x s = Some s' \<Longrightarrow> within_capacity c s \<Longrightarrow> within_capacity c s'"
    using addParticleGrid_capacity by auto
next
  case (AddHorizCloth ll ur spacing d mass holdEdges)
  then show "apply_op E x s = Some s' \<Longrightarrow> within_capacity c s \<Longrightarrow> within_capacity c s'"
    using addHorizCloth_capacity by auto
next
  case (AddRope start spacing d numLinks mass constrainStart)
  then show "apply_op E x s = Some s' \<Longrightarrow> within_capacity c s \<Longrightarrow> within_capacity c s'"
    using addRope_capacity by auto
next
  case (AddStaticSphere ll ur spacing)
  then show "apply_op E x s = Some s' \<Longrightarrow> within_capacity c s \<Longrightarrow> within_capacity c s'"
    using addStaticSphere_capacity by auto
next
  case (MakePointConstraint index point)
  then show "apply_op E x s = Some s' \<Longrightarrow> within_capacity c s \<Longrightarrow> within_capacity c s'"
    using addPointConstraint_capacity by (auto simp: makePointConstraint_def)
next
  case (MakeDistanceConstraint i j distance)
  then show "apply_op E x s = Some s' \<Longrightarrow> within_capacity c s \<Longrightarrow> within_capacity c s'"
    using addDistanceConstraint_capacity by (auto simp: makeDistanceConstraint_def)
next
  case (Update dt)
  then show "apply_op E x s = Some s' \<Longrightarrow> within_capacity c s \<Longrightarrow> within_capacity c s'"
    using update_capacity by auto
qed

lemma run_capacity:
  "run E xs s = Some s' \<Longrightarrow> within_capacity c s \<Longrightarrow> within_capacity c s'"
proof (induction xs arbitrary: s)
  case Nil
  then show ?case by simp
next
  case (Cons x xs)
  then show ?case
    by (auto simp: bind_eq_Some_conv dest: apply_op_capacity)
qed

lemma run_take:
  "run E xs s = Some s' \<Longrightarrow> \<exists>t. run E (take k xs) s = Some t"
proof (induction xs arbitrary: s k)
  case Nil
  then show ?case by simp
next
  case (Cons x xs)
  then show ?case
    by (cases k) (auto simp: bind_eq_Some_conv)
qed

lemma new_capacity:
  "within_capacity maxP (ParticleSystem_new r g maxP lo hi it)"
  by (simp add: within_capacity_def ParticleSystem_new_def)

lemma addParticle_full:
  "m_numParticles s = m_maxParticles s \<Longrightarrow> addParticle pos vel mass ro phase s = s"
  by (simp add: addParticle_def)

lemma addParticleMultiple_full:
  assumes "m_numParticles s = m_maxParticles s" "0 \<le> n"
    "unat (m_maxParticles s) + nat n < 2 ^ 32"
  shows "addParticleMultiple pos vel mass ro phase n s = Some s"
proof -
  have "nat n < 2 ^ 32" using assms(3) by simp
  then have "n < 2 ^ 32" using assms(2) by (simp add: nat_less_iff)
  then have "n mod 2 ^ 32 = n" using assms(2) by simp
  then have "uint (word_of_int n :: uint) = n" by (simp add: uint_word_of_int)
  then have n: "unat (word_of_int n :: uint) = nat n" by (simp add: unat_eq_nat_uint)
  have "m_maxParticles s \<le> m_maxParticles s + word_of_int n"
    using assms(3) n by (simp add: word_le_nat_alt unat_word_ariths)
  then show ?thesis using assms(1) by (simp add: addParticleMultiple_def)
qed

lemma addParticles_loop_full:
  "addParticles_loop E n s = Some s' \<Longrightarrow> m_numParticles s = m_maxParticles s \<Longrightarrow>
   m_numParticles s' = m_numParticles s \<and> m_maxParticles s' = m_maxParticles s"
proof (induction n arbitrary: s)
  case 0
  then show ?case by simp
next
  case (Suc n)
  then show ?case
    by (auto simp: addParticle_def split: list.splits)
qed

lemma addFluids_loop_full:
  "addFluids_loop E n col s = Some (col', s') \<Longrightarrow> m_numParticles s = m_maxParticles s \<Longrightarrow>
   m_numParticles s' = m_numParticles s \<and> m_maxParticles s' = m_maxParticles s"
proof (induction n arbitrary: s col)
  case 0
  then show ?case by simp
next
  case (Suc n)
  then show ?case
    by (auto simp: addParticle_def split: list.splits)
qed

lemma addNewStuff_full:
  assumes "addNewStuff E s = Some s'" "m_numParticles s = m_maxParticles s"
  shows "m_numParticles s' = m_numParticles s"
proof -
  from assms(1) obtain t where t: "addParticles E s = Some t" and f: "addFluids E t = Some s'"
    by (auto simp: addNewStuff_def split: Option.bind_splits)
  have tt: "m_numParticles t = m_numParticles s \<and> m_maxParticles t = m_maxParticles s"
    using t assms(2) addParticles_loop_full by (auto simp: addParticles_def split: if_splits)
  show ?thesis
    using f tt assms(2) addFluids_loop_full
    by (auto simp: addFluids_def Let_def split: if_splits option.splits)
qed

text \<open>
  Claim C1. Take an engine constructed with capacity \<open>maxP\<close> and any list of operations on
  it: single and batch admissions, enqueueing, queue drains, the five shape builders, direct
  constraints and simulation steps. After every operation of the run (after every prefix
  \<open>take k ops\<close>) the count of particles is between 0 and the capacity, and the capacity is
  still \<open>maxP\<close>. When the engine is full, a single admission returns the state as it was, a
  drain of the queues leaves the count as it was, and so does a batch admission of \<open>n \<ge> 0\<close>
  particles, provided \<open>maxP + n\<close> fits the 32 bits of the counter.
\<close>

theorem capacity_invariant:
  assumes "run E ops (ParticleSystem_new r g maxP lo hi it) = Some s"
  shows "(\<forall>k. \<exists>t. run E (take k ops) (ParticleSystem_new r g maxP lo hi it) = Some t \<and>
              0 \<le> unat (m_numParticles t) \<and> m_numParticles t \<le> m_maxParticles t \<and>
              m_maxParticles t = maxP) \<and>
         (m_numParticles s = m_maxParticles s \<longrightarrow>
            addParticle pos vel mass ro phase s = s \<and>
            (\<forall>s'. addNewStuff E s = Some s' \<longrightarrow> m_numParticles s' = m_numParticles s) \<and>
            (0 \<le> n \<and> unat maxP + nat n < 2 ^ 32 \<longrightarrow>
               addParticleMultiple ps vs ws rs phs n s = Some s))"
proof (intro conjI allI impI)
  fix k
  obtain t where t: "run E (take k ops) (ParticleSystem_new r g maxP lo hi it) = Some t"
    using run_take [OF assms] by blast
  have "within_capacity maxP t"
    using run_capacity [OF t new_capacity] .
  then show "\<exists>t. run E (take k ops) (ParticleSystem_new r g maxP lo hi it) = Some t \<and>
              0 \<le> unat (m_numParticles t) \<and> m_numParticles t \<le> m_maxParticles t \<and>
              m_maxParticles t = maxP"
    using t by (auto simp: within_capacity_def)
next
  assume "m_numParticles s = m_maxParticles s"
  then show "addParticle pos vel mass ro phase s = s" by (rule addParticle_full)
next
  fix s'
  assume "m_numParticles s = m_maxParticles s" "addNewStuff E s = Some s'"
  then show "m_numParticles s' = m_numParticles s" using addNewStuff_full by blast
next
  assume full: "m_numParticles s = m_maxParticles s" and n: "0 \<le> n \<and> unat maxP + nat n < 2 ^ 32"
  have "m_maxParticles s = maxP"
    using run_capacity [OF assms new_capacity] by (simp add: within_capacity_def)
  with full n show "addParticleMultiple ps vs ws rs phs n s = Some s"
    by (auto intro: addParticleMultiple_full)
qed

lemma ten_particles_run: "run env0 ten_particles engine0 \<noteq> None"
  by code_simp

lemma ten_particles_num: "map_option m_numParticles (run env0 ten_particles engine0) = Some 10"
  by code_simp

theorem capacity_invariant_witness:
  "\<exists>s. run env0 ten_particles engine0 = Some s \<and> m_numParticles s = 10 \<and>
       m_numParticles s \<le> m_maxParticles s \<and> m_maxParticles s = 10 \<and>
       addParticle (make_float4 0 0 0 1) (make_float4 0 0 0 0) 1 1 0 s = s \<and>
       addParticleMultiple [make_float4 0 0 0 1] [make_float4 0 0 0 0] [Fin 1] [1] [0] 1 s = Some s"
proof -
  obtain s where s: "run env0 ten_particles engine0 = Some s"
    using ten_particles_run by auto
  have num: "m_numParticles s = 10" using ten_particles_num s by simp
  have r: "run env0 ten_particles (ParticleSystem_new 1 (make_uint3 4 4 4) 10 (make_int3 0 0 0) (make_int3 8 8 8) 3) = Some s"
    using s by (simp add: engine0_def)
  note ci = capacity_invariant [OF r, where pos = "make_float4 0 0 0 1" and vel = "make_float4 0 0 0 0" and mass = 1 and ro = 1 and phase = 0 and n = 1
      and ps = "[make_float4 0 0 0 1]" and vs = "[make_float4 0 0 0 0]" and ws = "[Fin 1]" and rs = "[1]" and phs = "[0]"]
  from ci obtain t where t: "run env0 (take 10 ten_particles) (ParticleSystem_new 1 (make_uint3 4 4 4) 10 (make_int3 0 0 0) (make_int3 8 8 8) 3) = Some t"
    and le: "m_numParticles t \<le> m_maxParticles t" and mx: "m_maxParticles t = 10"
    by blast
  have ts: "t = s" using t r by (simp add: ten_particles_def)
  have full: "m_numParticles s = m_maxParticles s" using num mx ts by simp
  have side: "0 \<le> (1::int) \<and> unat (10::uint) + nat 1 < 2 ^ 32" by simp
  from ci full have a: "addParticle (make_float4 0 0 0 1) (make_float4 0 0 0 0) 1 1 0 s = s"
    by blast
  from ci full side
  have b: "addParticleMultiple [make_float4 0 0 0 1] [make_float4 0 0 0 0] [Fin 1] [1] [0] 1 s = Some s"
    by blast
  show ?thesis
    using s num le mx ts a b by blast
qed

section \<open>Refusal at the capacity\<close>

text \<open>
  Claim C2, evaluated. The engine has capacity 10 and holds 4 particles. A batch of 6 does not
  exceed the capacity (4 + 6 = 10), yet \<^verbatim>\<open>addParticleMultiple\<close> refuses it: the run with the
  batch ends in the state of the run without it. Ten single admissions do reach 10.
\<close>

theorem batch_exact_fit_dropped:
  "m_maxParticles engine0 = 10 \<and>
   map_option m_numParticles (run env0 four_particles engine0) = Some 4 \<and>
   run env0 (four_particles @ [six_batch]) engine0 = run env0 four_particles engine0 \<and>
   map_option m_numParticles (run env0 ten_particles engine0) = Some 10"
  by code_simp

section \<open>The order of a step\<close>

lemma addParticle_launches: "launches (addParticle pos vel mass ro phase s) = launches s"
  by (simp add: addParticle_def Let_def appendIntegrationParticle_def appendPhaseAndMass_def)

lemma addParticles_loop_launches:
  "addParticles_loop E n s = Some s' \<Longrightarrow> launches s' = launches s"
proof (induction n arbitrary: s)
  case 0
  then show ?case by simp
next
  case (Suc n)
  then show ?case
    by (auto simp: addParticle_launches split: list.splits)
qed

lemma addFluids_loop_launches:
  "addFluids_loop E n col s = Some (col', s') \<Longrightarrow> launches s' = launches s"
proof (induction n arbitrary: s col)
  case 0
  then show ?case by simp
next
  case (Suc n)
  then show ?case
    by (auto simp: addParticle_launches split: list.splits)
qed

lemma addNewStuff_launches:
  assumes "addNewStuff E s = Some s'"
  shows "launches s' = launches s"
proof -
  from assms obtain t where t: "addParticles E s = Some t" and f: "addFluids E t = Some s'"
    by (auto simp: addNewStuff_def split: Option.bind_splits)
  have "launches t = launches s"
    using t addParticles_loop_launches by (auto simp: addParticles_def split: if_splits)
  moreover have "launches s' = launches t"
    using f addFluids_loop_launches
    by (auto simp: addFluids_def Let_def split: if_splits option.splits)
  ultimately show ?thesis by simp
qed

text \<open>
  Claim C4. On a store that is not empty, \<^verbatim>\<open>update\<close> is the drain of the insertion queues
  applied to the state in which the calls of the step have all been made: the buffer is
  mapped, the parameters set, the prediction made once; then come as many rounds as
  \<^verbatim>\<open>m_solverIterations\<close> says, each of hash, sort, cell ranges, collisions, fluids, world
  bounds, distance constraints and point constraints, in this order; then the velocities,
  once, and the buffer is unmapped. Up to the drain only the record of calls has changed, so
  the queues and the count of particles are those of the start; the drain makes no call, so
  the record of calls after the step is exactly this sequence.
\<close>

theorem update_phase_order:
  assumes "m_numParticles s \<noteq> 0"
  shows "update E dt s =
           addNewStuff E
             (s\<lparr> launches := launches s @
                   step_calls (min dt (5 / 100)) (m_numParticles s) (m_numGridCells s)
                     (m_minBounds s) (m_maxBounds s) (unat (m_solverIterations s)) \<rparr>) \<and>
         (\<forall>s'. update E dt s = Some s' \<longrightarrow>
            launches s' = launches s @
              step_calls (min dt (5 / 100)) (m_numParticles s) (m_numGridCells s)
                (m_minBounds s) (m_maxBounds s) (unat (m_solverIterations s)))"
proof -
  have eq: "update E dt s =
           addNewStuff E
             (s\<lparr> launches := launches s @
                   step_calls (min dt (5 / 100)) (m_numParticles s) (m_numGridCells s)
                     (m_minBounds s) (m_maxBounds s) (unat (m_solverIterations s)) \<rparr>)"
    using assms by (simp add: update_def Let_def solver_loop_launches step_calls_def)
  show ?thesis
  proof (intro conjI allI impI)
    show "update E dt s =
           addNewStuff E
             (s\<lparr> launches := launches s @
                   step_calls (min dt (5 / 100)) (m_numParticles s) (m_numGridCells s)
                     (m_minBounds s) (m_maxBounds s) (unat (m_solverIterations s)) \<rparr>)"
      by (rule eq)
  next
    fix s'
    assume "update E dt s = Some s'"
    with eq have "addNewStuff E
             (s\<lparr> launches := launches s @
                   step_calls (min dt (5 / 100)) (m_numParticles s) (m_numGridCells s)
                     (m_minBounds s) (m_maxBounds s) (unat (m_solverIterations s)) \<rparr>) = Some s'"
      by simp
    from addNewStuff_launches [OF this]
    show "launches s' = launches s @
              step_calls (min dt (5 / 100)) (m_numParticles s) (m_numGridCells s)
                (m_minBounds s) (m_maxBounds s) (unat (m_solverIterations s))"
      by simp
  qed
qed

lemma one_particle_num: "m_numParticles one_particle \<noteq> 0"
  by code_simp

lemma one_particle_update: "update env0 10 one_particle \<noteq> None"
  by code_simp

theorem update_phase_order_witness:
  "m_numParticles one_particle \<noteq> 0 \<and>
   (\<exists>s'. update env0 10 one_particle = Some s' \<and>
      launches s' =
        [MapGLBufferObject, SetParameters, IntegrateSystem (5 / 100) 1]
        @ concat (replicate 3 (round_calls 1 64 (make_int3 0 0 0) (make_int3 8 8 8)))
        @ [CalcVelocity (5 / 100) 1, UnmapGLBufferObject])"
proof -
  obtain s' where s': "update env0 10 one_particle = Some s'"
    using one_particle_update by auto
  have f: "launches one_particle = [] \<and> m_numParticles one_particle = 1 \<and>
    m_numGridCells one_particle = 64 \<and> m_minBounds one_particle = make_int3 0 0 0 \<and>
    m_maxBounds one_particle = make_int3 8 8 8 \<and> unat (m_solverIterations one_particle) = 3"
    by code_simp
  from update_phase_order [OF one_particle_num, of env0 10] s'
  have "launches s' = launches one_particle @
              step_calls (min 10 (5 / 100)) (m_numParticles one_particle) (m_numGridCells one_particle)
                (m_minBounds one_particle) (m_maxBounds one_particle) (unat (m_solverIterations one_particle))"
    by blast
  then have "launches s' =
        [MapGLBufferObject, SetParameters, IntegrateSystem (5 / 100) 1]
        @ concat (replicate 3 (round_calls 1 64 (make_int3 0 0 0) (make_int3 8 8 8)))
        @ [CalcVelocity (5 / 100) 1, UnmapGLBufferObject]"
    using f by (simp add: step_calls_def)
  with s' one_particle_num show ?thesis by blast
qed

text \<open>
  Claim C6. A time step of 0.05 or more gives the same result as a time step of 0.05: the
  step is clamped before anything else is done with it.
\<close>

theorem timestep_clamp:
  assumes "5 / 100 \<le> dt"
  shows "update E dt s = update E (5 / 100) s"
proof -
  have "min dt (5 / 100) = min (5 / 100) (5 / 100 :: rat)"
    using assms by (simp add: min_def)
  then show ?thesis
    by (simp only: update_def)
qed

theorem timestep_clamp_witness:
  "(5 / 100 :: rat) \<le> 10 \<and> update env0 10 one_particle = update env0 (5 / 100) one_particle \<and>
   update env0 10 one_particle \<noteq> None"
proof -
  have h: "(5 / 100 :: rat) \<le> 10" by simp
  from timestep_clamp [OF h, of env0 one_particle] one_particle_update h
  show ?thesis by simp
qed

section \<open>Inverse mass\<close>

lemma fdiv_zero: "fdiv 1 0 = PInf"
  by (simp add: fdiv_def)

lemma addParticle_admits:
  "m_numParticles s \<noteq> m_maxParticles s \<Longrightarrow>
   d_w (addParticle pos vel mass ro phase s) = d_w s @ [fdiv 1 mass] \<and>
   m_numParticles (addParticle pos vel mass ro phase s) = m_numParticles s + 1"
  by (simp add: addParticle_def Let_def appendIntegrationParticle_def appendPhaseAndMass_def)

text \<open>
  Claim C10. An engine that is not full admits a particle of any mass and stores the inverse
  mass \<open>1 / mass\<close>; the mass is not checked. For the mass 0 the stored value is the infinity
  that the division yields, which is not finite, and the particle counts. The same holds for
  a particle of mass 0 that is enqueued with \<^verbatim>\<open>setParticleToAdd\<close> and then drained by
  \<^verbatim>\<open>addParticles\<close>.
\<close>

theorem zero_mass_inverse:
  assumes "m_numParticles s \<noteq> m_maxParticles s"
  shows "d_w (addParticle pos vel mass ro phase s) = d_w s @ [fdiv 1 mass] \<and>
         fdiv 1 0 = PInf \<and> \<not> isfinite (fdiv 1 0) \<and>
         d_w (addParticle pos vel 0 ro phase s) = d_w s @ [PInf] \<and>
         m_numParticles (addParticle pos vel 0 ro phase s) = m_numParticles s + 1 \<and>
         (m_particlesToAdd s = [] \<longrightarrow>
            (\<forall>s1. setParticleToAdd E p v 0 s = Some s1 \<longrightarrow>
               (\<exists>s2. addParticles E s1 = Some s2 \<and> d_w s2 = d_w s @ [PInf] \<and>
                     m_numParticles s2 = m_numParticles s + 1)))"
proof (intro conjI impI allI)
  show "d_w (addParticle pos vel mass ro phase s) = d_w s @ [fdiv 1 mass]"
    using addParticle_admits [OF assms] by simp
  show "fdiv 1 0 = PInf" by (rule fdiv_zero)
  show "\<not> isfinite (fdiv 1 0)" by (simp add: fdiv_zero)
  show "d_w (addParticle pos vel 0 ro phase s) = d_w s @ [PInf]"
    using addParticle_admits [OF assms] by (simp add: fdiv_zero)
  show "m_numParticles (addParticle pos vel 0 ro phase s) = m_numParticles s + 1"
    using addParticle_admits [OF assms] by simp
next
  fix s1
  assume empty: "m_particlesToAdd s = []" and enq: "setParticleToAdd E p v 0 s = Some s1"
  from enq obtain q1 where q: "m_particlesToAdd s1 = [q1, make_float4_3 v 0]"
    and same: "m_numParticles s1 = m_numParticles s" "m_maxParticles s1 = m_maxParticles s"
      "d_w s1 = d_w s"
    using empty by (auto simp: setParticleToAdd_def Let_def split: option.splits)
  define t where "t = s1\<lparr> m_particlesToAdd := [] \<rparr>"
  have nf: "m_numParticles t \<noteq> m_maxParticles t" using assms same by (simp add: t_def)
  have "addParticles E s1 =
          Some (addParticle q1 (make_float4 (f3x v) (f3y v) (f3z v) 0) 0 (3 / 2) (SOLID E) t)"
    using q by (simp add: addParticles_def t_def make_float4_3_def)
  moreover have "d_w t = d_w s" "m_numParticles t = m_numParticles s"
    using same by (simp_all add: t_def)
  ultimately show "\<exists>s2. addParticles E s1 = Some s2 \<and> d_w s2 = d_w s @ [PInf] \<and>
                     m_numParticles s2 = m_numParticles s + 1"
    using addParticle_admits [OF nf, of q1 "make_float4 (f3x v) (f3y v) (f3z v) 0" 0 "3 / 2" "SOLID E"]
    by (simp add: fdiv_zero)
qed

lemma zero_mass_enqueue: "setParticleToAdd env0 (make_float3 0 0 0) (make_float3 0 0 0) 0 engine0 \<noteq> None"
  by code_simp

theorem zero_mass_inverse_witness:
  "m_numParticles engine0 \<noteq> m_maxParticles engine0 \<and> m_particlesToAdd engine0 = [] \<and>
   d_w (addParticle (make_float4 0 0 0 1) (make_float4 0 0 0 0) 0 1 0 engine0) = [PInf] \<and>
   (\<exists>s1 s2. setParticleToAdd env0 (make_float3 0 0 0) (make_float3 0 0 0) 0 engine0 = Some s1 \<and>
      addParticles env0 s1 = Some s2 \<and> d_w s2 = [PInf] \<and> m_numParticles s2 = 1)"
proof -
  have h: "m_numParticles engine0 \<noteq> m_maxParticles engine0"
    by (simp add: engine0_def ParticleSystem_new_def)
  have e: "m_particlesToAdd engine0 = []" "d_w engine0 = []" "m_numParticles engine0 = 0"
    by (simp_all add: engine0_def ParticleSystem_new_def)
  obtain s1 where s1: "setParticleToAdd env0 (make_float3 0 0 0) (make_float3 0 0 0) 0 engine0 = Some s1"
    using zero_mass_enqueue by auto
  note z = zero_mass_inverse [OF h, where pos = "make_float4 0 0 0 1" and vel = "make_float4 0 0 0 0"
      and ro = 1 and phase = 0 and E = env0 and p = "make_float3 0 0 0" and v = "make_float3 0 0 0"]
  from z have a: "d_w (addParticle (make_float4 0 0 0 1) (make_float4 0 0 0 0) 0 1 0 engine0) = [PInf]"
    using e by simp
  from z e(1) s1 obtain s2 where "addParticles env0 s1 = Some s2" "d_w s2 = d_w engine0 @ [PInf]"
    "m_numParticles s2 = m_numParticles engine0 + 1"
    by blast
  then show ?thesis using h e a s1 by auto
qed

section \<open>A builder on a full engine\<close>

text \<open>
  Claim C3, evaluated. \<open>engine0\<close> is full after ten admissions and has no constraint and no
  group. The rope builder then adds no particle, but it appends five distance constraints
  and a pin on the indices 10 to 15, which no particle has, a group \<open>(10, 10)\<close>, and it
  advances the rigid index.
\<close>

theorem rope_dropped_keeps_constraints:
  "map_option m_numParticles (run env0 ten_particles engine0) = Some 10 \<and>
   map_option d_distanceConstraints (run env0 ten_particles engine0) = Some [] \<and>
   map_option d_pointConstraints (run env0 ten_particles engine0) = Some [] \<and>
   map_option m_colorIndex (run env0 ten_particles engine0) = Some [] \<and>
   map_option m_rigidIndex (run env0 ten_particles engine0) = Some 0 \<and>
   map_option m_numParticles (run env0 (ten_particles @ [rope5]) engine0) = Some 10 \<and>
   map_option d_distanceConstraints (run env0 (ten_particles @ [rope5]) engine0) =
     Some [((10, 11), 1), ((11, 12), 1), ((12, 13), 1), ((13, 14), 1), ((14, 15), 1)] \<and>
   map_option d_pointConstraints (run env0 (ten_particles @ [rope5]) engine0) =
     Some [(10, make_float3 0 0 0)] \<and>
   map_option m_colorIndex (run env0 (ten_particles @ [rope5]) engine0) = Some [make_int2 10 10] \<and>
   map_option m_rigidIndex (run env0 (ten_particles @ [rope5]) engine0) = Some 1"
  by code_simp

section \<open>The count of particles along an axis\<close>

text \<open>
  Claim C7, evaluated. An extent of 5 at a spacing of 2 gives 2 particles along the axis, not
  \<open>\<lceil>5 / 2\<rceil> = 3\<close>, so the cloth over a square of side 5 has 4 particles and not 9; an
  extent of 4 at a spacing of 2.5 gives 1, not \<open>\<lceil>4 / 2.5\<rceil> = 2\<close>.
\<close>

theorem axis_count_truncates:
  "cloth_count (make_int2 0 0) (make_int2 5 5) (make_float3 2 0 2) = Some (make_int2 2 2) \<and>
   \<lceil>(5 - 0) / (2 :: rat)\<rceil> = 3 \<and>
   lattice_count (make_int3 0 0 0) (make_int3 4 4 4) (1 * (25 / 10)) = Some (make_int3 1 1 1) \<and>
   \<lceil>(4 - 0) / (1 * (25 / 10) :: rat)\<rceil> = 2 \<and>
   map_option m_numParticles
     (addHorizCloth env0 (make_int2 0 0) (make_int2 5 5) (make_float3 2 0 2) (make_float2 2 2) 1 False engine0)
     = Some 4"
  by code_simp

section \<open>The rope of the scripted scenario\<close>

lemma rope_loop_five:
  "rope_loop n start spacing d 5 1 ([p0], [], []) =
     ([p0,
       make_float4_3 (float3_add start (float3_scale 1 spacing)) 1,
       make_float4_3 (float3_add start (float3_scale 2 spacing)) 1,
       make_float4_3 (float3_add start (float3_scale 3 spacing)) 1,
       make_float4_3 (float3_add start (float3_scale 4 spacing)) 1,
       make_float4_3 (float3_add start (float3_scale 5 spacing)) 1],
      [n, n + 1, n + 1, n + 2, n + 2, n + 3, n + 3, n + 4, n + 4, n + 5],
      [d, d, d, d, d])"
  by (simp add: rope_loop.simps)

lemma batch_guard_passes:
  fixes k :: nat
  assumes "unat (m_numParticles s) + k < unat (m_maxParticles s)"
  shows "\<not> m_maxParticles s \<le> m_numParticles s + word_of_nat k"
proof -
  have "unat (m_maxParticles s) < 2 ^ 32"
    using unsigned_less [of "m_maxParticles s"] by simp
  with assms have small: "unat (m_numParticles s) + k < 2 ^ 32" by simp
  then have "k < 2 ^ 32" by simp
  then have "unat (word_of_nat k :: uint) = k" by (simp add: unat_of_nat)
  with small have "unat (m_numParticles s + word_of_nat k) = unat (m_numParticles s) + k"
    by (simp add: unat_word_ariths)
  with assms show ?thesis by (simp add: word_le_nat_alt)
qed

text \<open>
  What the rope builder does when the guard of \<^verbatim>\<open>addParticleMultiple\<close> lets the batch pass,
  that is with more than six free slots, and with a colour table that \<^verbatim>\<open>rand()\<close> indexes:
  the rope from \<open>(0, 0, 0)\<close> with five links of length 1 and a constrained start adds exactly
  six particles, five distance constraints of rest length 1 between consecutive new indices,
  and one point constraint that pins the first new index to \<open>(0, 0, 0)\<close>. Spacing and mass
  are arbitrary.
\<close>

lemma rope_with_room:
  assumes cap: "unat (m_numParticles s) + 6 < unat (m_maxParticles s)"
    and col: "pick_color E (rand_count s) = Some c"
  shows "\<exists>s'. addRope E (make_float3 0 0 0) spacing 1 5 mass True s = Some s' \<and>
           m_numParticles s' = m_numParticles s + 6 \<and>
           length (d_w s') = length (d_w s) + 6 \<and>
           d_distanceConstraints s' = d_distanceConstraints s @
             [((m_numParticles s, m_numParticles s + 1), 1),
              ((m_numParticles s + 1, m_numParticles s + 2), 1),
              ((m_numParticles s + 2, m_numParticles s + 3), 1),
              ((m_numParticles s + 3, m_numParticles s + 4), 1),
              ((m_numParticles s + 4, m_numParticles s + 5), 1)] \<and>
           d_pointConstraints s' = d_pointConstraints s @
             [(m_numParticles s, make_float3 0 0 0)]"
proof -
  have g: "\<not> m_maxParticles s \<le> m_numParticles s + 6"
    using batch_guard_passes [of s 6] cap by simp
  show ?thesis
    using g col
    by (simp add: addRope_def Let_def rope_loop_five addParticleMultiple_def read_array_def
        fill_def zero_vel_def appendIntegrationParticle_def appendPhaseAndMass_def
        addDistanceConstraint_def addPointConstraint_def push_group_def)
qed

lemma engine0_empty:
  "m_numParticles engine0 = 0 \<and> m_maxParticles engine0 = 10 \<and> d_w engine0 = [] \<and>
   d_distanceConstraints engine0 = [] \<and> d_pointConstraints engine0 = []"
  by (simp add: engine0_def ParticleSystem_new_def)

lemma rope_with_room_example:
  "unat (m_numParticles engine0) + 6 < unat (m_maxParticles engine0) \<and>
   pick_color env0 (rand_count engine0) = Some (make_float3 0 0 1) \<and>
   (\<exists>s'. addRope env0 (make_float3 0 0 0) (make_float3 1 0 0) 1 5 1 True engine0 = Some s' \<and>
      m_numParticles s' = 6 \<and> length (d_w s') = 6 \<and>
      d_distanceConstraints s' = [((0, 1), 1), ((1, 2), 1), ((2, 3), 1), ((3, 4), 1), ((4, 5), 1)] \<and>
      d_pointConstraints s' = [(0, make_float3 0 0 0)])"
proof -
  have cap: "unat (m_numParticles engine0) + 6 < unat (m_maxParticles engine0)"
    by (simp add: engine0_empty)
  have col: "pick_color env0 (rand_count engine0) = Some (make_float3 0 0 1)"
    by code_simp
  from rope_with_room [OF cap col, of "make_float3 1 0 0" 1]
  obtain s' where "addRope env0 (make_float3 0 0 0) (make_float3 1 0 0) 1 5 1 True engine0 = Some s'"
    "m_numParticles s' = m_numParticles engine0 + 6"
    "length (d_w s') = length (d_w engine0) + 6"
    "d_distanceConstraints s' = d_distanceConstraints engine0 @
             [((m_numParticles engine0, m_numParticles engine0 + 1), 1),
              ((m_numParticles engine0 + 1, m_numParticles engine0 + 2), 1),
              ((m_numParticles engine0 + 2, m_numParticles engine0 + 3), 1),
              ((m_numParticles engine0 + 3, m_numParticles engine0 + 4), 1),
              ((m_numParticles engine0 + 4, m_numParticles engine0 + 5), 1)]"
    "d_pointConstraints s' = d_pointConstraints engine0 @
             [(m_numParticles engine0, make_float3 0 0 0)]"
    by blast
  then have "addRope env0 (make_float3 0 0 0) (make_float3 1 0 0) 1 5 1 True engine0 = Some s' \<and>
      m_numParticles s' = 6 \<and> length (d_w s') = 6 \<and>
      d_distanceConstraints s' = [((0, 1), 1), ((1, 2), 1), ((2, 3), 1), ((3, 4), 1), ((4, 5), 1)] \<and>
      d_pointConstraints s' = [(0, make_float3 0 0 0)]"
    by (simp add: engine0_empty)
  with cap col show ?thesis by blast
qed

text \<open>
  Claim C5, evaluated. \<open>engine0\<close> has capacity 10 and holds 4 particles, so it has room for
  the six particles of the rope. The batch is refused all the same: the count stays 4. The
  five distance constraints and the pin are appended, on the indices 4 to 9, which no
  particle has. On the empty engine the same call admits the six particles.
\<close>

theorem rope_exact_fit_dropped:
  "m_maxParticles engine0 = 10 \<and>
   map_option m_numParticles (run env0 four_particles engine0) = Some 4 \<and>
   map_option m_numParticles (run env0 (four_particles @ [rope5]) engine0) = Some 4 \<and>
   map_option d_distanceConstraints (run env0 (four_particles @ [rope5]) engine0) =
     Some [((4, 5), 1), ((5, 6), 1), ((6, 7), 1), ((7, 8), 1), ((8, 9), 1)] \<and>
   map_option d_pointConstraints (run env0 (four_particles @ [rope5]) engine0) =
     Some [(4, make_float3 0 0 0)] \<and>
   map_option m_numParticles (run env0 [rope5] engine0) = Some 6"
  by code_simp

section \<open>Fluid groups\<close>












section \<open>Jitter\<close>

lemma frand_unit: "rand_ok E \<Longrightarrow> 0 \<le> frand E k \<and> frand E k \<le> 1"
proof -
  assume "rand_ok E"
  then have r: "0 \<le> rand_src E k" "rand_src E k \<le> 2147483647"
    by (simp_all add: rand_ok_def RAND_MAX_def)
  have "frand E k = of_int (rand_src E k) / 2147483647"
    by (simp add: frand_def RAND_MAX_def)
  moreover have "(0::rat) \<le> of_int (rand_src E k)" using r(1) by simp
  moreover have "(of_int (rand_src E k) :: rat) \<le> 2147483647"
    using r(2) of_int_le_iff [of "rand_src E k" 2147483647, where ?'a = rat] by simp
  ultimately show ?thesis by simp
qed

lemma jitter_bound:
  assumes "rand_ok E"
  shows "\<bar>(frand E k * 2 - 1) * j\<bar> \<le> \<bar>j\<bar>"
proof -
  from frand_unit [OF assms, of k] have "\<bar>frand E k * 2 - 1\<bar> \<le> 1" by (simp add: abs_le_iff)
  then have "\<bar>frand E k * 2 - 1\<bar> * \<bar>j\<bar> \<le> 1 * \<bar>j\<bar>"
    by (rule mult_right_mono) simp
  then show ?thesis by (simp add: abs_mult)
qed

lemma jitter_at_near: "rand_ok E \<Longrightarrow> near j (jitter_at E j k p) p"
  using jitter_bound [of E k j] jitter_bound [of E "k + 1" j] jitter_bound [of E "k + 2" j]
  by (simp add: near_def jitter_at_def)

lemma jitter_at_zero: "jitter_at E 0 k p = p"
  by (cases p) (simp add: jitter_at_def)

lemma jittered_nil: "jittered E j k [] = []"
  by (simp add: jittered_def)

lemma jittered_snoc:
  "jittered E j k (lat @ [p]) = jittered E j k lat @ [jitter_at E j (k + 3 * length lat) p]"
  by (simp add: jittered_def enumerate_append_eq)

lemma length_jittered: "length (jittered E j k lat) = length lat"
  by (simp add: jittered_def)

lemma jittered_zero: "jittered E 0 k lat = lat"
proof (induction lat rule: rev_induct)
  case Nil
  then show ?case by (simp add: jittered_nil)
next
  case (snoc p lat)
  then show ?case by (simp add: jittered_snoc jitter_at_zero)
qed

lemma jittered_near: "rand_ok E \<Longrightarrow> list_all2 (near j) (jittered E j k lat) lat"
proof (induction lat rule: rev_induct)
  case Nil
  then show ?case by (simp add: jittered_nil)
next
  case (snoc p lat)
  then show ?case
    by (simp add: jittered_snoc jitter_at_near list_all2_appendI)
qed

lemma lattice_point_jitter:
  "lattice_point E ll d j z y x k = jitter_at E j k (lattice_at ll d z y x)"
  by (simp add: lattice_point_def jitter_at_def lattice_at_def)

lemma fill_x_jittered:
  "fill_x E ll c d j z y x (jittered E j k0 lat, k0 + 3 * length lat) =
     (jittered E j k0 (lat @ map (lattice_at ll d z y) [x..i3x c - 1]),
      k0 + 3 * length (lat @ map (lattice_at ll d z y) [x..i3x c - 1]))"
proof (induction "nat (i3x c - x)" arbitrary: x lat)
  case 0
  then have "\<not> x < i3x c" by simp
  then show ?case by (subst fill_x.simps) simp
next
  case (Suc n)
  then have lt: "x < i3x c" by linarith
  have up: "[x..i3x c - 1] = x # [x + 1..i3x c - 1]"
    using lt by (simp add: upto_rec1)
  have n: "n = nat (i3x c - (x + 1))" using Suc.hyps(2) by linarith
  have acc: "(jittered E j k0 lat @ [lattice_point E ll d j z y x (k0 + 3 * length lat)],
              k0 + 3 * length lat + 3) =
             (jittered E j k0 (lat @ [lattice_at ll d z y x]),
              k0 + 3 * length (lat @ [lattice_at ll d z y x]))"
    by (simp add: jittered_snoc lattice_point_jitter)
  show ?case
    using Suc.hyps(1) [OF n, of "lat @ [lattice_at ll d z y x]"] lt
    by (subst fill_x.simps) (simp add: up acc)
qed

lemma fill_y_jittered:
  "fill_y E ll c d j z y (jittered E j k0 lat, k0 + 3 * length lat) =
     (jittered E j k0
        (lat @ concat (map (\<lambda>y. map (lattice_at ll d z y) [0..i3x c - 1]) [y..i3y c - 1])),
      k0 + 3 * length
        (lat @ concat (map (\<lambda>y. map (lattice_at ll d z y) [0..i3x c - 1]) [y..i3y c - 1])))"
proof (induction "nat (i3y c - y)" arbitrary: y lat)
  case 0
  then have "\<not> y < i3y c" by simp
  then show ?case by (subst fill_y.simps) simp
next
  case (Suc n)
  then have lt: "y < i3y c" by linarith
  have up: "[y..i3y c - 1] = y # [y + 1..i3y c - 1]"
    using lt by (simp add: upto_rec1)
  have n: "n = nat (i3y c - (y + 1))" using Suc.hyps(2) by linarith
  show ?case
    using Suc.hyps(1) [OF n, of "lat @ map (lattice_at ll d z y) [0..i3x c - 1]"] lt
    by (subst fill_y.simps) (simp add: up fill_x_jittered)
qed

lemma fill_z_jittered:
  "fill_z E ll c d j z (jittered E j k0 lat, k0 + 3 * length lat) =
     (jittered E j k0
        (lat @ concat (map (\<lambda>z. concat (map (\<lambda>y. map (lattice_at ll d z y) [0..i3x c - 1])
                                            [0..i3y c - 1]))
                        [z..i3z c - 1])),
      k0 + 3 * length
        (lat @ concat (map (\<lambda>z. concat (map (\<lambda>y. map (lattice_at ll d z y) [0..i3x c - 1])
                                            [0..i3y c - 1]))
                        [z..i3z c - 1])))"
proof (induction "nat (i3z c - z)" arbitrary: z lat)
  case 0
  then have "\<not> z < i3z c" by simp
  then show ?case by (subst fill_z.simps) simp
next
  case (Suc n)
  then have lt: "z < i3z c" by linarith
  have up: "[z..i3z c - 1] = z # [z + 1..i3z c - 1]"
    using lt by (simp add: upto_rec1)
  have n: "n = nat (i3z c - (z + 1))" using Suc.hyps(2) by linarith
  show ?case
    using Suc.hyps(1) [OF n,
        of "lat @ concat (map (\<lambda>y. map (lattice_at ll d z y) [0..i3x c - 1]) [0..i3y c - 1])"] lt
    by (subst fill_z.simps) (simp add: up fill_y_jittered)
qed

lemma fill_z_generates:
  "fill_z E ll c d j 0 ([], k) =
     (jittered E j k (lattice_points ll c d), k + 3 * length (lattice_points ll c d))"
  using fill_z_jittered [of E ll c d j 0 k "[]"]
  by (simp add: jittered_nil lattice_points_def)

lemma length_concat_rows:
  "(\<And>z. z \<in> set zs \<Longrightarrow> length (f z) = n) \<Longrightarrow> length (concat (map f zs)) = length zs * n"
  by (induction zs) simp_all

lemma length_lattice_points:
  "length (lattice_points ll c d) = nat (i3x c) * nat (i3y c) * nat (i3z c)"
proof -
  have row: "length (map (lattice_at ll d z y) [0..i3x c - 1]) = nat (i3x c)" for z y
    by simp
  have plane: "length (concat (map (\<lambda>y. map (lattice_at ll d z y) [0..i3x c - 1])
                                 [0..i3y c - 1])) = nat (i3y c) * nat (i3x c)" for z
    using length_concat_rows [of "[0..i3y c - 1]"
        "\<lambda>y. map (lattice_at ll d z y) [0..i3x c - 1]" "nat (i3x c)"] row
    by simp
  have "length (lattice_points ll c d) = nat (i3z c) * (nat (i3y c) * nat (i3x c))"
    unfolding lattice_points_def
    using length_concat_rows [of "[0..i3z c - 1]"
        "\<lambda>z. concat (map (\<lambda>y. map (lattice_at ll d z y) [0..i3x c - 1]) [0..i3y c - 1])"
        "nat (i3y c) * nat (i3x c)"] plane
    by simp
  then show ?thesis by (simp add: mult.commute mult.left_commute)
qed

lemma length_cloth_points:
  "length (cloth_points ll c sp) = nat (i2x c) * nat (i2y c)"
proof -
  have "length (cloth_points ll c sp) = nat (i2y c) * nat (i2x c)"
    unfolding cloth_points_def
    using length_concat_rows [of "[0..i2y c - 1]"
        "\<lambda>z. map (cloth_at ll sp z) [0..i2x c - 1]" "nat (i2x c)"]
    by simp
  then show ?thesis by (simp add: mult.commute)
qed

lemma nat_product2: "0 \<le> a * b \<Longrightarrow> nat a * nat b \<le> nat (a * b)"
proof (cases "0 \<le> a")
  case True
  then show ?thesis by (simp add: nat_mult_distrib)
next
  case False
  then show ?thesis by simp
qed

lemma nat_product3:
  assumes "0 \<le> a * b * c"
  shows "nat a * nat b * nat c \<le> nat (a * b * c)"
proof (cases "0 < a \<and> 0 < b \<and> 0 < c")
  case True
  then have "nat (a * b * c) = nat a * nat b * nat c"
    by (simp add: nat_mult_distrib)
  then show ?thesis by simp
next
  case False
  then have "nat a = 0 \<or> nat b = 0 \<or> nat c = 0" by auto
  then show ?thesis by auto
qed

lemma addParticleMultiple_uploads:
  assumes "addParticleMultiple pos vel w ro ph n s = Some s'" and "length pos \<le> nat n"
  shows "uploads s s' n pos"
proof (cases "m_maxParticles s \<le> m_numParticles s + word_of_int n")
  case True
  with assms(1) have "s' = s" by (simp add: addParticleMultiple_def)
  with True show ?thesis by (simp add: uploads_def)
next
  case False
  with assms(1) have r: "0 \<le> n \<and> nat n \<le> length pos"
    by (auto simp: addParticleMultiple_def read_array_def split: option.splits if_splits)
  with assms(2) have len: "length pos = nat n" by simp
  then have "take (nat n) pos = pos" by simp
  with False assms(1) r have
    "posVbo s' = glBufferSubData (unat (m_numParticles s)) pos (posVbo s) \<and>
     m_numParticles s' = m_numParticles s + word_of_int n"
    by (auto simp: addParticleMultiple_def Let_def read_array_def appendIntegrationParticle_def
        appendPhaseAndMass_def split: option.splits if_splits)
  with False len show ?thesis by (simp add: uploads_def)
qed

lemma uploads_frame:
  "posVbo t = posVbo s \<Longrightarrow> m_numParticles t = m_numParticles s \<Longrightarrow>
   m_maxParticles t = m_maxParticles s \<Longrightarrow> posVbo t' = posVbo s' \<Longrightarrow>
   m_numParticles t' = m_numParticles s' \<Longrightarrow> uploads t t' n gen = uploads s s' n gen"
  by (simp add: uploads_def)

lemma after_batch_frame:
  "addPointConstraint ix ps n s = Some s' \<Longrightarrow>
     posVbo s' = posVbo s \<and> m_numParticles s' = m_numParticles s"
  "addDistanceConstraint jx ds n s = Some s' \<Longrightarrow>
     posVbo s' = posVbo s \<and> m_numParticles s' = m_numParticles s"
  "push_group E start s = Some s' \<Longrightarrow>
     posVbo s' = posVbo s \<and> m_numParticles s' = m_numParticles s"
  by (auto simp: addPointConstraint_def addDistanceConstraint_def push_group_def
      split: option.splits)

lemma lattice_batch:
  assumes "addParticleMultiple (fst (fill_z E ll c d j 0 ([], k))) vel w ro ph
             (i3x c * i3y c * i3z c) t = Some t'"
    and "0 \<le> i3x c * i3y c * i3z c"
  shows "uploads t t' (i3x c * i3y c * i3z c) (jittered E j k (lattice_points ll c d))"
proof -
  have "length (jittered E j k (lattice_points ll c d)) \<le> nat (i3x c * i3y c * i3z c)"
    using nat_product3 [OF assms(2)] by (simp add: length_jittered length_lattice_points)
  with assms(1) show ?thesis
    by (simp add: fill_z_generates addParticleMultiple_uploads)
qed

lemma addFluid_uploads:
  assumes "addFluid E ll ur mass density color s = Some s'"
  shows "\<exists>count. lattice_count ll ur (m_particleRadius s * (25 / 10)) = Some count \<and>
           uploads s s' (i3x count * i3y count * i3z count)
             (jittered E (m_particleRadius s * (1 / 100)) (rand_count s)
                (lattice_points ll count (m_particleRadius s * (25 / 10))))"
proof -
  from assms obtain count t where
    c: "lattice_count ll ur (m_particleRadius s * (25 / 10)) = Some count"
    and nn: "0 \<le> i3x count * i3y count * i3z count"
    and t: "addParticleMultiple
              (fst (fill_z E ll count (m_particleRadius s * (25 / 10))
                      (m_particleRadius s * (1 / 100)) 0 ([], rand_count s)))
              (zero_vel (i3x count * i3y count * i3z count))
              (fill (i3x count * i3y count * i3z count) (fdiv 1 mass))
              (fill (i3x count * i3y count * i3z count) density)
              (fill (i3x count * i3y count * i3z count) (FLUID E))
              (i3x count * i3y count * i3z count)
              (s\<lparr> rand_count := snd (fill_z E ll count (m_particleRadius s * (25 / 10))
                      (m_particleRadius s * (1 / 100)) 0 ([], rand_count s)) \<rparr>) = Some t"
    and s': "posVbo s' = posVbo t" "m_numParticles s' = m_numParticles t"
    by (auto simp: addFluid_def Let_def split: option.splits if_splits)
  from lattice_batch [OF t nn] s' have
    "uploads s s' (i3x count * i3y count * i3z count)
       (jittered E (m_particleRadius s * (1 / 100)) (rand_count s)
          (lattice_points ll count (m_particleRadius s * (25 / 10))))"
    by (simp add: uploads_def)
  with c show ?thesis by blast
qed

lemma addParticleGrid_uploads:
  assumes "addParticleGrid E ll ur mass addJitter s = Some s'"
  shows "\<exists>count. lattice_count ll ur (m_particleRadius s * (2002 / 1000)) = Some count \<and>
           uploads s s' (i3x count * i3y count * i3z count)
             (jittered E (if addJitter then m_particleRadius s * (1 / 100) else 0) (rand_count s)
                (lattice_points ll count (m_particleRadius s * (2002 / 1000))))"
proof -
  define j where "j = (if addJitter then m_particleRadius s * (1 / 100) else 0)"
  from assms obtain count t where
    c: "lattice_count ll ur (m_particleRadius s * (2002 / 1000)) = Some count"
    and nn: "0 \<le> i3x count * i3y count * i3z count"
    and t: "addParticleMultiple
              (fst (fill_z E ll count (m_particleRadius s * (2002 / 1000)) j 0 ([], rand_count s)))
              (zero_vel (i3x count * i3y count * i3z count))
              (fill (i3x count * i3y count * i3z count) (fdiv 1 mass))
              (fill (i3x count * i3y count * i3z count) 1)
              (fill (i3x count * i3y count * i3z count) (SOLID E))
              (i3x count * i3y count * i3z count)
              (s\<lparr> rand_count := snd (fill_z E ll count (m_particleRadius s * (2002 / 1000)) j 0
                      ([], rand_count s)) \<rparr>) = Some t"
    and s': "posVbo s' = posVbo t" "m_numParticles s' = m_numParticles t"
    by (auto simp: addParticleGrid_def Let_def j_def bind_eq_Some_conv after_batch_frame
        split: option.splits if_splits)
  from lattice_batch [OF t nn] s' have
    "uploads s s' (i3x count * i3y count * i3z count)
       (jittered E j (rand_count s) (lattice_points ll count (m_particleRadius s * (2002 / 1000))))"
    by (simp add: uploads_def)
  with c show ?thesis by (auto simp: j_def)
qed

lemma cloth_body_pos:
  "c_pos (cloth_body start ll c sp d h z x a) = c_pos a @ [cloth_at ll sp z x]"
  by (simp add: cloth_body_def Let_def cloth_pin_def cloth_link_def cloth_at_def)

lemma cloth_x_pos:
  "c_pos (cloth_x start ll c sp d h z x a) = c_pos a @ map (cloth_at ll sp z) [x..i2x c - 1]"
proof (induction start ll c sp d h z x a rule: cloth_x.induct)
  case (1 start ll count spacing d holdEdges z x a)
  show ?case
  proof (cases "x < i2x count")
    case True
    have up: "[x..i2x count - 1] = x # [x + 1..i2x count - 1]"
      using True by (simp add: upto_rec1)
    from "1.IH" [OF True] True show ?thesis
      by (subst cloth_x.simps) (simp add: up cloth_body_pos)
  next
    case False
    then show ?thesis by (subst cloth_x.simps) simp
  qed
qed

lemma cloth_z_pos:
  "c_pos (cloth_z start ll c sp d h z a) =
     c_pos a @ concat (map (\<lambda>z. map (cloth_at ll sp z) [0..i2x c - 1]) [z..i2y c - 1])"
proof (induction start ll c sp d h z a rule: cloth_z.induct)
  case (1 start ll count spacing d holdEdges z a)
  show ?case
  proof (cases "z < i2y count")
    case True
    have up: "[z..i2y count - 1] = z # [z + 1..i2y count - 1]"
      using True by (simp add: upto_rec1)
    from "1.IH" [OF True] True show ?thesis
      by (subst cloth_z.simps) (simp add: up cloth_x_pos)
  next
    case False
    then show ?thesis by (subst cloth_z.simps) simp
  qed
qed

lemma cloth_z_generates:
  "c_pos (cloth_z start ll c sp d h 0
            \<lparr> c_pos = [], c_indicesD = [], c_dists = [], c_indicesP = [], c_points = [] \<rparr>) =
     cloth_points ll c sp"
  by (simp add: cloth_z_pos cloth_points_def)

lemma addHorizCloth_uploads:
  assumes "addHorizCloth E ll ur spacing d mass holdEdges s = Some s'"
  shows "\<exists>count. cloth_count ll ur spacing = Some count \<and>
           uploads s s' (i2x count * i2y count) (cloth_points ll count spacing)"
proof -
  from assms obtain count t where
    c: "cloth_count ll ur spacing = Some count"
    and nn: "0 \<le> i2x count * i2y count"
    and t: "addParticleMultiple (cloth_points ll count spacing)
              (zero_vel (i2x count * i2y count))
              (fill (i2x count * i2y count) (fdiv 1 mass))
              (fill (i2x count * i2y count) 1)
              (fill (i2x count * i2y count) (RIGID E + m_rigidIndex s))
              (i2x count * i2y count) s = Some t"
    and s': "posVbo s' = posVbo t" "m_numParticles s' = m_numParticles t"
    by (auto simp: addHorizCloth_def Let_def bind_eq_Some_conv after_batch_frame
        cloth_z_generates split: option.splits if_splits)
  have "length (cloth_points ll count spacing) \<le> nat (i2x count * i2y count)"
    using nat_product2 [OF nn] by (simp add: length_cloth_points)
  from addParticleMultiple_uploads [OF t this] s' c show ?thesis
    by (auto simp: uploads_def)
qed

text \<open>
  Claim C8, as amended. The loop nest of the fluid and grid builders generates, for every
  lattice point in turn, the point moved in x, y and z by \<open>(frand() * 2 - 1) * jitter\<close>, each
  with a value of \<^verbatim>\<open>frand()\<close> of its own; the loop nest of the cloth generates the lattice
  points themselves. The fluid builder passes the jitter \<open>0.01 * particleRadius\<close>. The grid
  builder passes the same when \<^verbatim>\<open>addJitter\<close> is set; when it is not, the jitter is 0 and the
  positions are the exact lattice points. Each builder uploads all the positions it generated,
  one per particle of the batch, or nothing when the batch is refused. With \<^verbatim>\<open>frand()\<close>
  between 0 and 1, a position with jitter \<open>j\<close> lies within \<open>\<bar>j\<bar>\<close> of its lattice point in each
  coordinate; with jitter 0 it is the lattice point.
\<close>

theorem jitter_by_builder:
  "fst (fill_z E ll0 c0 d0 j0 0 ([], k0)) = jittered E j0 k0 (lattice_points ll0 c0 d0) \<and>
   c_pos (cloth_z start0 ll1 c1 sp1 dd1 h1 0
            \<lparr> c_pos = [], c_indicesD = [], c_dists = [], c_indicesP = [], c_points = [] \<rparr>) =
     cloth_points ll1 c1 sp1 \<and>
   (addFluid E ll ur mass density color s = Some s1 \<longrightarrow>
      (\<exists>count. lattice_count ll ur (m_particleRadius s * (25 / 10)) = Some count \<and>
         uploads s s1 (i3x count * i3y count * i3z count)
           (jittered E (m_particleRadius s * (1 / 100)) (rand_count s)
              (lattice_points ll count (m_particleRadius s * (25 / 10)))))) \<and>
   (addParticleGrid E ll ur mass True s = Some s2 \<longrightarrow>
      (\<exists>count. lattice_count ll ur (m_particleRadius s * (2002 / 1000)) = Some count \<and>
         uploads s s2 (i3x count * i3y count * i3z count)
           (jittered E (m_particleRadius s * (1 / 100)) (rand_count s)
              (lattice_points ll count (m_particleRadius s * (2002 / 1000)))))) \<and>
   (addParticleGrid E ll ur mass False s = Some s3 \<longrightarrow>
      (\<exists>count. lattice_count ll ur (m_particleRadius s * (2002 / 1000)) = Some count \<and>
         uploads s s3 (i3x count * i3y count * i3z count)
           (lattice_points ll count (m_particleRadius s * (2002 / 1000))))) \<and>
   (addHorizCloth E ll2 ur2 spacing dist' mass holdEdges s = Some s4 \<longrightarrow>
      (\<exists>count. cloth_count ll2 ur2 spacing = Some count \<and>
         uploads s s4 (i2x count * i2y count) (cloth_points ll2 count spacing))) \<and>
   (rand_ok E \<longrightarrow> list_all2 (near j) (jittered E j k lat) lat) \<and>
   jittered E 0 k lat = lat"
proof -
  have gen: "fst (fill_z E ll0 c0 d0 j0 0 ([], k0)) = jittered E j0 k0 (lattice_points ll0 c0 d0)"
    by (simp add: fill_z_generates)
  have sheet: "c_pos (cloth_z start0 ll1 c1 sp1 dd1 h1 0
            \<lparr> c_pos = [], c_indicesD = [], c_dists = [], c_indicesP = [], c_points = [] \<rparr>) =
     cloth_points ll1 c1 sp1"
    by (rule cloth_z_generates)
  have fluid: "\<exists>count. lattice_count ll ur (m_particleRadius s * (25 / 10)) = Some count \<and>
         uploads s s1 (i3x count * i3y count * i3z count)
           (jittered E (m_particleRadius s * (1 / 100)) (rand_count s)
              (lattice_points ll count (m_particleRadius s * (25 / 10))))"
    if "addFluid E ll ur mass density color s = Some s1"
    using that by (rule addFluid_uploads)
  have grid: "\<exists>count. lattice_count ll ur (m_particleRadius s * (2002 / 1000)) = Some count \<and>
         uploads s s2 (i3x count * i3y count * i3z count)
           (jittered E (m_particleRadius s * (1 / 100)) (rand_count s)
              (lattice_points ll count (m_particleRadius s * (2002 / 1000))))"
    if "addParticleGrid E ll ur mass True s = Some s2"
    using addParticleGrid_uploads [OF that] by simp
  have plain: "\<exists>count. lattice_count ll ur (m_particleRadius s * (2002 / 1000)) = Some count \<and>
         uploads s s3 (i3x count * i3y count * i3z count)
           (lattice_points ll count (m_particleRadius s * (2002 / 1000)))"
    if "addParticleGrid E ll ur mass False s = Some s3"
    using addParticleGrid_uploads [OF that] by (simp add: jittered_zero)
  have cloth: "\<exists>count. cloth_count ll2 ur2 spacing = Some count \<and>
         uploads s s4 (i2x count * i2y count) (cloth_points ll2 count spacing)"
    if "addHorizCloth E ll2 ur2 spacing dist' mass holdEdges s = Some s4"
    using that by (rule addHorizCloth_uploads)
  have bound: "list_all2 (near j) (jittered E j k lat) lat" if "rand_ok E"
    using that by (rule jittered_near)
  have zero: "jittered E 0 k lat = lat" by (rule jittered_zero)
  from gen sheet fluid grid plain cloth bound zero show ?thesis by blast
qed

text \<open>
  Claim C8 as stated fails. The random source of \<open>env0\<close> always returns \<^verbatim>\<open>RAND_MAX\<close>, so
  \<^verbatim>\<open>frand()\<close> is 1 and a jitter would be at its largest. The grid builder without
  \<^verbatim>\<open>addJitter\<close> and the cloth builder still place their particles exactly on the lattice;
  with \<^verbatim>\<open>addJitter\<close> the grid builder moves them by a hundredth of the radius.
\<close>

theorem lattice_without_jitter:
  "frand env0 0 = 1 \<and>
   map_option posVbo
     (addParticleGrid env0 (make_int3 0 0 0) (make_int3 5 3 3) 1 False engine0) =
     Some ([Some (make_float4 0 0 0 1), Some (make_float4 (1001 / 500) 0 0 1)] @ replicate 8 None) \<and>
   map_option posVbo
     (addParticleGrid env0 (make_int3 0 0 0) (make_int3 5 3 3) 1 True engine0) =
     Some ([Some (make_float4 (1 / 100) (1 / 100) (1 / 100) 1),
            Some (make_float4 (1001 / 500 + 1 / 100) (1 / 100) (1 / 100) 1)] @ replicate 8 None) \<and>
   map_option posVbo
     (addHorizCloth env0 (make_int2 0 0) (make_int2 4 4) (make_float3 2 1 2) (make_float2 2 2) 1
        False engine0) =
     Some ([Some (make_float4 0 1 0 1), Some (make_float4 2 1 0 1), Some (make_float4 0 1 2 1),
            Some (make_float4 2 1 2 1)] @ replicate 6 None)"
  by code_simp

lemma env0_rand_ok: "rand_ok env0"
  by (simp add: rand_ok_def env0_def RAND_MAX_def)

lemma builders_run:
  "addFluid env0 (make_int3 0 0 0) (make_int3 5 3 3) 1 1 (make_float3 0 1 0) engine0 \<noteq> None \<and>
   addParticleGrid env0 (make_int3 0 0 0) (make_int3 5 3 3) 1 True engine0 \<noteq> None \<and>
   addParticleGrid env0 (make_int3 0 0 0) (make_int3 5 3 3) 1 False engine0 \<noteq> None \<and>
   addHorizCloth env0 (make_int2 0 0) (make_int2 4 4) (make_float3 2 1 2) (make_float2 2 2) 1
     False engine0 \<noteq> None"
  by code_simp

lemma fluid_example:
  "map_option posVbo
     (addFluid env0 (make_int3 0 0 0) (make_int3 5 3 3) 1 1 (make_float3 0 1 0) engine0) =
     Some ([Some (make_float4 (1 / 100) (1 / 100) (1 / 100) 1),
            Some (make_float4 (25 / 10 + 1 / 100) (1 / 100) (1 / 100) 1)] @ replicate 8 None) \<and>
   jittered env0 (1 / 100) 0 [make_float4 0 0 0 1, make_float4 (25 / 10) 0 0 1] =
     [make_float4 (1 / 100) (1 / 100) (1 / 100) 1,
      make_float4 (25 / 10 + 1 / 100) (1 / 100) (1 / 100) 1]"
  by code_simp

theorem jitter_by_builder_witness:
  "rand_ok env0 \<and>
   list_all2 (near (1 / 100))
     (jittered env0 (1 / 100) 0 [make_float4 0 0 0 1, make_float4 (25 / 10) 0 0 1])
     [make_float4 0 0 0 1, make_float4 (25 / 10) 0 0 1] \<and>
   (\<exists>s1 count.
      addFluid env0 (make_int3 0 0 0) (make_int3 5 3 3) 1 1 (make_float3 0 1 0) engine0 = Some s1 \<and>
      lattice_count (make_int3 0 0 0) (make_int3 5 3 3) (m_particleRadius engine0 * (25 / 10)) =
        Some count \<and>
      uploads engine0 s1 (i3x count * i3y count * i3z count)
        (jittered env0 (m_particleRadius engine0 * (1 / 100)) (rand_count engine0)
           (lattice_points (make_int3 0 0 0) count (m_particleRadius engine0 * (25 / 10))))) \<and>
   (\<exists>s2 count.
      addParticleGrid env0 (make_int3 0 0 0) (make_int3 5 3 3) 1 True engine0 = Some s2 \<and>
      lattice_count (make_int3 0 0 0) (make_int3 5 3 3) (m_particleRadius engine0 * (2002 / 1000)) =
        Some count \<and>
      uploads engine0 s2 (i3x count * i3y count * i3z count)
        (jittered env0 (m_particleRadius engine0 * (1 / 100)) (rand_count engine0)
           (lattice_points (make_int3 0 0 0) count (m_particleRadius engine0 * (2002 / 1000))))) \<and>
   (\<exists>s3 count.
      addParticleGrid env0 (make_int3 0 0 0) (make_int3 5 3 3) 1 False engine0 = Some s3 \<and>
      lattice_count (make_int3 0 0 0) (make_int3 5 3 3) (m_particleRadius engine0 * (2002 / 1000)) =
        Some count \<and>
      uploads engine0 s3 (i3x count * i3y count * i3z count)
        (lattice_points (make_int3 0 0 0) count (m_particleRadius engine0 * (2002 / 1000)))) \<and>
   (\<exists>s4 count.
      addHorizCloth env0 (make_int2 0 0) (make_int2 4 4) (make_float3 2 1 2) (make_float2 2 2) 1
        False engine0 = Some s4 \<and>
      cloth_count (make_int2 0 0) (make_int2 4 4) (make_float3 2 1 2) = Some count \<and>
      uploads engine0 s4 (i2x count * i2y count)
        (cloth_points (make_int2 0 0) count (make_float3 2 1 2)))"
proof -
  obtain s1 s2 s3 s4 where
    s1: "addFluid env0 (make_int3 0 0 0) (make_int3 5 3 3) 1 1 (make_float3 0 1 0) engine0 = Some s1"
    and s2: "addParticleGrid env0 (make_int3 0 0 0) (make_int3 5 3 3) 1 True engine0 = Some s2"
    and s3: "addParticleGrid env0 (make_int3 0 0 0) (make_int3 5 3 3) 1 False engine0 = Some s3"
    and s4: "addHorizCloth env0 (make_int2 0 0) (make_int2 4 4) (make_float3 2 1 2)
               (make_float2 2 2) 1 False engine0 = Some s4"
    using builders_run by auto
  note t = jitter_by_builder [where E = env0 and ll = "make_int3 0 0 0" and ur = "make_int3 5 3 3"
      and mass = 1 and density = 1 and color = "make_float3 0 1 0" and s = engine0 and ?s1.0 = s1
      and ?s2.0 = s2 and ?s3.0 = s3 and ?ll2.0 = "make_int2 0 0" and ?ur2.0 = "make_int2 4 4"
      and spacing = "make_float3 2 1 2" and dist' = "make_float2 2 2" and holdEdges = False
      and ?s4.0 = s4 and j = "1 / 100" and k = 0
      and lat = "[make_float4 0 0 0 1, make_float4 (25 / 10) 0 0 1]"]
  from t env0_rand_ok have n: "list_all2 (near (1 / 100))
     (jittered env0 (1 / 100) 0 [make_float4 0 0 0 1, make_float4 (25 / 10) 0 0 1])
     [make_float4 0 0 0 1, make_float4 (25 / 10) 0 0 1]"
    by blast
  from t s1 have a: "\<exists>count.
      lattice_count (make_int3 0 0 0) (make_int3 5 3 3) (m_particleRadius engine0 * (25 / 10)) =
        Some count \<and>
      uploads engine0 s1 (i3x count * i3y count * i3z count)
        (jittered env0 (m_particleRadius engine0 * (1 / 100)) (rand_count engine0)
           (lattice_points (make_int3 0 0 0) count (m_particleRadius engine0 * (25 / 10))))"
    by blast
  from t s2 have b: "\<exists>count.
      lattice_count (make_int3 0 0 0) (make_int3 5 3 3) (m_particleRadius engine0 * (2002 / 1000)) =
        Some count \<and>
      uploads engine0 s2 (i3x count * i3y count * i3z count)
        (jittered env0 (m_particleRadius engine0 * (1 / 100)) (rand_count engine0)
           (lattice_points (make_int3 0 0 0) count (m_particleRadius engine0 * (2002 / 1000))))"
    by blast
  from t s3 have c: "\<exists>count.
      lattice_count (make_int3 0 0 0) (make_int3 5 3 3) (m_particleRadius engine0 * (2002 / 1000)) =
        Some count \<and>
      uploads engine0 s3 (i3x count * i3y count * i3z count)
        (lattice_points (make_int3 0 0 0) count (m_particleRadius engine0 * (2002 / 1000)))"
    by blast
  from t s4 have d: "\<exists>count.
      cloth_count (make_int2 0 0) (make_int2 4 4) (make_float3 2 1 2) = Some count \<and>
      uploads engine0 s4 (i2x count * i2y count)
        (cloth_points (make_int2 0 0) count (make_float3 2 1 2))"
    by blast
  from env0_rand_ok n s1 a s2 b s3 c s4 d show ?thesis by blast
qed

end
